theory Spec2Isabelle
  imports Complex_Main
begin

section \<open>Numbers\<close>

text \<open>
  A JavaScript \<open>number\<close> is modelled as a \<open>real\<close>: the arithmetic of the engine is
  read as exact arithmetic on finite values; rounding and overflow are outside the
  model. HOL's division is total (\<open>x / 0 = 0\<close>) where IEEE division gives an infinity
  or NaN, so a theorem over \<open>real\<close> that depends on the value of a price or of a Greek
  is stated where every divisor is non-zero; the theorems on aggregation, stress test
  and attribution hold whatever the prices and Greeks of the positions are. The one
  path of the source that does divide by zero (pricing at maturity 0) is modelled
  with the IEEE special values made explicit, in the type \<open>jsnum\<close>.

  \<open>jsnum\<close> has the finite values (exact reals), the two infinities and NaN. It has a
  single zero, which stands for \<open>+0\<close>: a zero divisor is read as \<open>+0\<close>. The zero divisors
  met below are \<open>sigma * sqrt T\<close>, \<open>S * sigma * sqrt T\<close> and \<open>2 * sqrt T\<close> with
  \<open>S > 0\<close>, \<open>sigma > 0\<close> and \<open>T = Math.max(0, _)\<close>, which are \<open>+0\<close> in IEEE arithmetic.
\<close>

datatype jsnum = Fin real | PInf | NInf | NaN

instantiation jsnum :: "{plus, uminus, times, divide, abs, ord}"
begin

fun uminus_jsnum :: "jsnum \<Rightarrow> jsnum" where
  "uminus_jsnum (Fin a) = Fin (- a)"
| "uminus_jsnum PInf = NInf"
| "uminus_jsnum NInf = PInf"
| "uminus_jsnum NaN = NaN"

fun abs_jsnum :: "jsnum \<Rightarrow> jsnum" where
  "abs_jsnum (Fin a) = Fin \<bar>a\<bar>"
| "abs_jsnum PInf = PInf"
| "abs_jsnum NInf = PInf"
| "abs_jsnum NaN = NaN"

fun plus_jsnum :: "jsnum \<Rightarrow> jsnum \<Rightarrow> jsnum" where
  "plus_jsnum (Fin a) (Fin b) = Fin (a + b)"
| "plus_jsnum (Fin a) PInf = PInf"
| "plus_jsnum (Fin a) NInf = NInf"
| "plus_jsnum PInf (Fin b) = PInf"
| "plus_jsnum NInf (Fin b) = NInf"
| "plus_jsnum PInf PInf = PInf"
| "plus_jsnum NInf NInf = NInf"
| "plus_jsnum PInf NInf = NaN"
| "plus_jsnum NInf PInf = NaN"
| "plus_jsnum NaN y = NaN"
| "plus_jsnum x NaN = NaN"

fun times_jsnum :: "jsnum \<Rightarrow> jsnum \<Rightarrow> jsnum" where
  "times_jsnum (Fin a) (Fin b) = Fin (a * b)"
| "times_jsnum (Fin a) PInf = (if a > 0 then PInf else if a < 0 then NInf else NaN)"
| "times_jsnum (Fin a) NInf = (if a > 0 then NInf else if a < 0 then PInf else NaN)"
| "times_jsnum PInf (Fin b) = (if b > 0 then PInf else if b < 0 then NInf else NaN)"
| "times_jsnum NInf (Fin b) = (if b > 0 then NInf else if b < 0 then PInf else NaN)"
| "times_jsnum PInf PInf = PInf"
| "times_jsnum NInf NInf = PInf"
| "times_jsnum PInf NInf = NInf"
| "times_jsnum NInf PInf = NInf"
| "times_jsnum NaN y = NaN"
| "times_jsnum x NaN = NaN"

fun divide_jsnum :: "jsnum \<Rightarrow> jsnum \<Rightarrow> jsnum" where
  "divide_jsnum (Fin a) (Fin b) =
     (if b \<noteq> 0 then Fin (a / b)
      else if a > 0 then PInf else if a < 0 then NInf else NaN)"
| "divide_jsnum (Fin a) PInf = Fin 0"
| "divide_jsnum (Fin a) NInf = Fin 0"
| "divide_jsnum PInf (Fin b) = (if b \<ge> 0 then PInf else NInf)"
| "divide_jsnum NInf (Fin b) = (if b \<ge> 0 then NInf else PInf)"
| "divide_jsnum PInf PInf = NaN"
| "divide_jsnum NInf NInf = NaN"
| "divide_jsnum PInf NInf = NaN"
| "divide_jsnum NInf PInf = NaN"
| "divide_jsnum NaN y = NaN"
| "divide_jsnum x NaN = NaN"

fun less_jsnum :: "jsnum \<Rightarrow> jsnum \<Rightarrow> bool" where
  "less_jsnum (Fin a) (Fin b) = (a < b)"
| "less_jsnum (Fin a) PInf = True"
| "less_jsnum NInf (Fin b) = True"
| "less_jsnum NInf PInf = True"
| "less_jsnum x y = False"

fun less_eq_jsnum :: "jsnum \<Rightarrow> jsnum \<Rightarrow> bool" where
  "less_eq_jsnum (Fin a) (Fin b) = (a \<le> b)"
| "less_eq_jsnum (Fin a) PInf = True"
| "less_eq_jsnum NInf (Fin b) = True"
| "less_eq_jsnum NInf PInf = True"
| "less_eq_jsnum PInf PInf = True"
| "less_eq_jsnum NInf NInf = True"
| "less_eq_jsnum x y = False"

instance ..

end

instantiation jsnum :: "{minus, inverse}"
begin

definition minus_jsnum :: "jsnum \<Rightarrow> jsnum \<Rightarrow> jsnum" where
  "minus_jsnum x y = x + (- y)"

definition inverse_jsnum :: "jsnum \<Rightarrow> jsnum" where
  "inverse_jsnum x = Fin 1 div x"

instance ..

end

text \<open>\<open>Math.exp\<close>, \<open>Math.log\<close> and \<open>Math.sqrt\<close> on \<open>jsnum\<close>.\<close>

fun jexp :: "jsnum \<Rightarrow> jsnum" where
  "jexp (Fin a) = Fin (exp a)"
| "jexp PInf = PInf"
| "jexp NInf = Fin 0"
| "jexp NaN = NaN"

fun jlog :: "jsnum \<Rightarrow> jsnum" where
  "jlog (Fin a) = (if a > 0 then Fin (ln a) else if a = 0 then NInf else NaN)"
| "jlog PInf = PInf"
| "jlog NInf = NaN"
| "jlog NaN = NaN"

fun jsqrt :: "jsnum \<Rightarrow> jsnum" where
  "jsqrt (Fin a) = (if a \<ge> 0 then Fin (sqrt a) else NaN)"
| "jsqrt PInf = PInf"
| "jsqrt NInf = NaN"
| "jsqrt NaN = NaN"

text \<open>
  Reading an array at an index: \<open>undefined\<close> (here \<open>None\<close>) outside the array, for a
  negative index as well.
\<close>

definition at_index :: "'a list \<Rightarrow> int \<Rightarrow> 'a option" where
  "at_index xs i = (if 0 \<le> i \<and> i < int (length xs) then Some (xs ! nat i) else None)"

text \<open>\<open>a || b\<close> on numbers: \<open>b\<close> when \<open>a\<close> is falsy, which for a finite number is \<open>a = 0\<close>.\<close>

definition or_else :: "real \<Rightarrow> real \<Rightarrow> real" where
  "or_else a b = (if a = 0 then b else a)"

datatype js_error = TypeError

section \<open>Data model\<close>

subsection \<open>The calculator (src/lib/utils/black-scholes.ts)\<close>

record BlackScholesInputs =
  stockPrice :: real
  strikePrice :: real
  timeToMaturity :: real
  volatility :: real
  riskFreeRate :: real
  isCall :: bool

record BlackScholesOutputs =
  optionPrice :: real
  d1 :: real
  d2 :: real
  delta :: real
  gamma :: real
  theta :: real
  vega :: real
  rho :: real

subsection \<open>The volatility surface (components/VolatilitySurface.tsx)\<close>

text \<open>A row of the uploaded CSV file, and the grid built from the rows.\<close>

record VolRow =
  strike :: real
  maturity :: real
  volatility :: real

record VolSurfaceData =
  strikes :: "real list"
  maturities :: "real list"
  volatilities :: "real list list"

subsection \<open>P\&L attribution, stress test and what-if parameters (components)\<close>

record PnLComponents =
  delta :: real
  gamma :: real
  theta :: real
  vega :: real
  rho :: real
  unexplained :: real
  total :: real

record StressParams =
  spotPriceChange :: real
  volatilityChange :: real
  rateChange :: real

record TuningParams =
  volatilityMultiplier :: real
  timeDecayDays :: real
  rateShift :: real

subsection \<open>Options and portfolios (src/types/option.ts)\<close>

datatype OptionType = Call | Put

record Option_t =
  ticker :: string
  type :: OptionType
  spotPrice :: real
  strikePrice :: real
  timeToExpiry :: real
  volatility :: real
  riskFreeRate :: real
  quantity :: real

text \<open>
  The five Greeks. The record is polymorphic in the type of numbers, so that the
  model over \<open>real\<close> and the model over \<open>jsnum\<close> share it.
\<close>

record 'n OptionGreeks =
  delta :: 'n
  gamma :: 'n
  theta :: 'n
  vega :: 'n
  rho :: 'n

record OptionMetrics = Option_t +
  price :: real
  greeks :: "real OptionGreeks"
  totalValue :: real

text \<open>
  The field \<open>totalValue\<close> of the interface \<open>Portfolio\<close> is named \<open>portfolioValue\<close>
  here, since a position (\<open>OptionMetrics\<close>) has a field \<open>totalValue\<close> of its own.
\<close>

record Portfolio =
  options :: "OptionMetrics list"
  portfolioValue :: real
  aggregateGreeks :: "real OptionGreeks"

section \<open>Pricing engine (src/lib/utils/blackScholes.ts)\<close>

definition normalCDF :: "real \<Rightarrow> real" where
  "normalCDF x =
     (let t = 1 / (1 + 0.2316419 * \<bar>x\<bar>);
          d = 0.3989423 * exp (- x * x / 2);
          p = d * t * (0.3193815 + t * (-0.3565638 + t * (1.781478 + t * (-1.821256 + t * 1.330274))))
      in if x > 0 then 1 - p else p)"

definition normalPDF :: "real \<Rightarrow> real" where
  "normalPDF x = exp (-0.5 * x * x) / sqrt (2 * pi)"

definition calculateD1D2 :: "real \<Rightarrow> real \<Rightarrow> real \<Rightarrow> real \<Rightarrow> real \<Rightarrow> real \<times> real" where
  "calculateD1D2 S K T r sigma =
     (let d1 = (ln (S / K) + (r + sigma * sigma / 2) * T) / (sigma * sqrt T);
          d2 = d1 - sigma * sqrt T
      in (d1, d2))"

definition calculateOptionPrice :: "'a Option_t_scheme \<Rightarrow> real" where
  "calculateOptionPrice option =
     (let S = spotPrice option; K = strikePrice option; T = timeToExpiry option;
          r = riskFreeRate option; sigma = volatility option;
          (d1, d2) = calculateD1D2 S K T r sigma;
          discountFactor = exp (- r * T)
      in if type option = Call
         then S * normalCDF d1 - K * discountFactor * normalCDF d2
         else K * discountFactor * normalCDF (- d2) - S * normalCDF (- d1))"

definition calculateGreeks :: "'a Option_t_scheme \<Rightarrow> real OptionGreeks" where
  "calculateGreeks option =
     (let S = spotPrice option; K = strikePrice option; T = timeToExpiry option;
          r = riskFreeRate option; sigma = volatility option;
          (d1, d2) = calculateD1D2 S K T r sigma;
          discountFactor = exp (- r * T);
          sign = (if type option = Call then 1 else -1);
          delta = sign * normalCDF (sign * d1);
          gamma = normalPDF d1 / (S * sigma * sqrt T);
          theta = - S * sigma * normalPDF d1 / (2 * sqrt T)
                  - sign * r * K * discountFactor * normalCDF (sign * d2);
          vega = S * sqrt T * normalPDF d1;
          rho = sign * K * T * discountFactor * normalCDF (sign * d2)
      in \<lparr>delta = delta, gamma = gamma, theta = theta, vega = vega, rho = rho\<rparr>)"

text \<open>
  \<open>calculateOptionMetrics\<close> spreads the fields of its argument and sets \<open>price\<close>,
  \<open>greeks\<close> and \<open>totalValue\<close>; fields of those names that the argument already has
  (the components pass the positions of an earlier portfolio) are overwritten.
\<close>

definition calculateOptionMetrics :: "'a Option_t_scheme \<Rightarrow> OptionMetrics" where
  "calculateOptionMetrics option =
     (let price = calculateOptionPrice option;
          greeks = calculateGreeks option;
          totalValue = price * quantity option
      in Option_t.extend (Option_t.truncate option)
           (OptionMetrics.fields price greeks totalValue))"

text \<open>
  The inner \<open>forEach\<close> over \<open>Object.keys(aggregateGreeks)\<close> visits the five keys
  \<open>delta\<close>, \<open>gamma\<close>, \<open>theta\<close>, \<open>vega\<close>, \<open>rho\<close> and adds, for each, the position's
  Greek times its quantity.
\<close>

definition addGreeks :: "real OptionGreeks \<Rightarrow> OptionMetrics \<Rightarrow> real OptionGreeks" where
  "addGreeks agg opt =
     \<lparr>delta = delta agg + delta (greeks opt) * quantity opt,
      gamma = gamma agg + gamma (greeks opt) * quantity opt,
      theta = theta agg + theta (greeks opt) * quantity opt,
      vega = vega agg + vega (greeks opt) * quantity opt,
      rho = rho agg + rho (greeks opt) * quantity opt\<rparr>"

definition calculatePortfolioMetrics :: "'a Option_t_scheme list \<Rightarrow> Portfolio" where
  "calculatePortfolioMetrics opts =
     (let optionMetrics = map calculateOptionMetrics opts;
          totalValue = foldl (\<lambda>sum opt. sum + totalValue opt) 0 optionMetrics;
          aggregateGreeks = foldl addGreeks
             \<lparr>delta = 0, gamma = 0, theta = 0, vega = 0, rho = 0\<rparr> optionMetrics
      in \<lparr>options = optionMetrics, portfolioValue = totalValue,
          aggregateGreeks = aggregateGreeks\<rparr>)"

subsection \<open>The same functions on \<open>jsnum\<close>\<close>

text \<open>
  The pricing functions once more, with the operations of \<open>jsnum\<close>, for inputs at
  which the source divides by zero. The fields of the option are finite numbers.
\<close>

definition normalCDF_js :: "jsnum \<Rightarrow> jsnum" where
  "normalCDF_js x =
     (let t = Fin 1 / (Fin 1 + Fin 0.2316419 * \<bar>x\<bar>);
          d = Fin 0.3989423 * jexp (- x * x / Fin 2);
          p = d * t * (Fin 0.3193815 + t * (Fin (-0.3565638) + t * (Fin 1.781478
                + t * (Fin (-1.821256) + t * Fin 1.330274))))
      in if x > Fin 0 then Fin 1 - p else p)"

definition normalPDF_js :: "jsnum \<Rightarrow> jsnum" where
  "normalPDF_js x = jexp (Fin (-0.5) * x * x) / jsqrt (Fin 2 * Fin pi)"

definition calculateD1D2_js :: "jsnum \<Rightarrow> jsnum \<Rightarrow> jsnum \<Rightarrow> jsnum \<Rightarrow> jsnum \<Rightarrow> jsnum \<times> jsnum" where
  "calculateD1D2_js S K T r sigma =
     (let d1 = (jlog (S / K) + (r + sigma * sigma / Fin 2) * T) / (sigma * jsqrt T);
          d2 = d1 - sigma * jsqrt T
      in (d1, d2))"

definition calculateOptionPrice_js :: "'a Option_t_scheme \<Rightarrow> jsnum" where
  "calculateOptionPrice_js option =
     (let S = Fin (spotPrice option); K = Fin (strikePrice option);
          T = Fin (timeToExpiry option); r = Fin (riskFreeRate option);
          sigma = Fin (volatility option);
          (d1, d2) = calculateD1D2_js S K T r sigma;
          discountFactor = jexp (- r * T)
      in if type option = Call
         then S * normalCDF_js d1 - K * discountFactor * normalCDF_js d2
         else K * discountFactor * normalCDF_js (- d2) - S * normalCDF_js (- d1))"

definition calculateGreeks_js :: "'a Option_t_scheme \<Rightarrow> jsnum OptionGreeks" where
  "calculateGreeks_js option =
     (let S = Fin (spotPrice option); K = Fin (strikePrice option);
          T = Fin (timeToExpiry option); r = Fin (riskFreeRate option);
          sigma = Fin (volatility option);
          (d1, d2) = calculateD1D2_js S K T r sigma;
          discountFactor = jexp (- r * T);
          sign = (if type option = Call then Fin 1 else Fin (-1));
          delta = sign * normalCDF_js (sign * d1);
          gamma = normalPDF_js d1 / (S * sigma * jsqrt T);
          theta = - S * sigma * normalPDF_js d1 / (Fin 2 * jsqrt T)
                  - sign * r * K * discountFactor * normalCDF_js (sign * d2);
          vega = S * jsqrt T * normalPDF_js d1;
          rho = sign * K * T * discountFactor * normalCDF_js (sign * d2)
      in \<lparr>delta = delta, gamma = gamma, theta = theta, vega = vega, rho = rho\<rparr>)"

section \<open>The calculator's pricing function (src/lib/utils/black-scholes.ts)\<close>

text \<open>
  \<open>calculateBlackScholes\<close> calls \<open>jStat.normal.cdf\<close> and \<open>jStat.normal.pdf\<close> of the jStat
  library, each with the arguments \<open>(x, mean, std)\<close>. The library is not part of the
  repository: the two functions are parameters of the model.
\<close>

definition calculateBlackScholes ::
  "(real \<Rightarrow> real \<Rightarrow> real \<Rightarrow> real) \<Rightarrow> (real \<Rightarrow> real \<Rightarrow> real \<Rightarrow> real)
     \<Rightarrow> BlackScholesInputs \<Rightarrow> BlackScholesOutputs" where
  "calculateBlackScholes jStat_normal_cdf jStat_normal_pdf inputs =
     (let S = stockPrice inputs; K = BlackScholesInputs.strikePrice inputs;
          T = timeToMaturity inputs; v = BlackScholesInputs.volatility inputs;
          r = BlackScholesInputs.riskFreeRate inputs; isCall = isCall inputs;
          d1 = (ln (S / K) + (r + v * v / 2) * T) / (v * sqrt T);
          d2 = d1 - v * sqrt T;
          Nd1 = jStat_normal_cdf (if isCall then d1 else - d1) 0 1;
          Nd2 = jStat_normal_cdf (if isCall then d2 else - d2) 0 1;
          Npd1 = jStat_normal_pdf d1 0 1;
          optionPrice = (if isCall
             then S * Nd1 - K * exp (- r * T) * Nd2
             else K * exp (- r * T) * (1 - Nd2) - S * (1 - Nd1));
          delta = (if isCall then Nd1 else Nd1 - 1);
          gamma = Npd1 / (S * v * sqrt T);
          theta = - (S * v * Npd1) / (2 * sqrt T)
                  - (if isCall then 1 else -1) * r * K * exp (- r * T) * Nd2;
          vega = S * sqrt T * Npd1;
          rho = (if isCall then 1 else -1) * K * T * exp (- r * T) * Nd2
      in \<lparr>optionPrice = optionPrice, d1 = d1, d2 = d2,
          BlackScholesOutputs.delta = delta, BlackScholesOutputs.gamma = gamma,
          BlackScholesOutputs.theta = theta, BlackScholesOutputs.vega = vega,
          BlackScholesOutputs.rho = rho\<rparr>)"

text \<open>\<open>defaultInputs\<close> of the calculator page.\<close>

definition defaultInputs :: BlackScholesInputs where
  "defaultInputs =
     \<lparr>stockPrice = 100, BlackScholesInputs.strikePrice = 100, timeToMaturity = 1,
      BlackScholesInputs.volatility = 0.2, BlackScholesInputs.riskFreeRate = 0.05,
      isCall = True\<rparr>"

section \<open>Scenario engine (components/StressTest.tsx, components/WhatIfPanel.tsx)\<close>

text \<open>
  The positions of a portfolio are \<open>OptionMetrics\<close>; the object spread keeps their
  fields \<open>price\<close>, \<open>greeks\<close> and \<open>totalValue\<close>, which \<open>calculateOptionMetrics\<close> then
  overwrites.
\<close>

definition stressedOptions :: "Portfolio \<Rightarrow> StressParams \<Rightarrow> OptionMetrics list" where
  "stressedOptions portfolio stressParams =
     map (\<lambda>option. option
            \<lparr>spotPrice := spotPrice option * (1 + spotPriceChange stressParams / 100),
             volatility := volatility option * (1 + volatilityChange stressParams / 100),
             riskFreeRate := riskFreeRate option + rateChange stressParams / 100\<rparr>)
         (options portfolio)"

definition runStressTest :: "Portfolio \<Rightarrow> StressParams \<Rightarrow> Portfolio" where
  "runStressTest portfolio stressParams =
     calculatePortfolioMetrics (stressedOptions portfolio stressParams)"

text \<open>
  The callback of the map in \<open>WhatIfPanel\<close>. The panel maps it over the positions of
  the portfolio and passes the adjusted positions to \<open>calculatePortfolioMetrics\<close>, so
  that each of them is priced by \<open>calculateOptionPrice\<close> and \<open>calculateGreeks\<close>.
\<close>

definition adjustOption :: "TuningParams \<Rightarrow> 'a Option_t_scheme \<Rightarrow> 'a Option_t_scheme" where
  "adjustOption params option = option
     \<lparr>volatility := volatility option * volatilityMultiplier params,
      timeToExpiry := max 0 (timeToExpiry option - timeDecayDays params / 365),
      riskFreeRate := riskFreeRate option + rateShift params / 100\<rparr>"

section \<open>P\&L attribution (components/PnLAttribution.tsx)\<close>

text \<open>\<open>Array.prototype.forEach\<close> with the index passed to the callback.\<close>

fun forEach_index :: "('s \<Rightarrow> 'a \<Rightarrow> nat \<Rightarrow> 's) \<Rightarrow> 's \<Rightarrow> 'a list \<Rightarrow> nat \<Rightarrow> 's" where
  "forEach_index f s [] index = s"
| "forEach_index f s (x # xs) index = forEach_index f (f s x index) xs (Suc index)"

text \<open>
  The callback of the loop over the current positions: \<open>prevOption\<close> is \<open>undefined\<close>
  when the previous portfolio has no position at the index, and the callback returns
  at once.
\<close>

definition attributeOption ::
  "Portfolio \<Rightarrow> real \<Rightarrow> PnLComponents \<Rightarrow> OptionMetrics \<Rightarrow> nat \<Rightarrow> PnLComponents" where
  "attributeOption previousPortfolio timeElapsed attribution currentOption index =
     (case at_index (options previousPortfolio) (int index) of
        None \<Rightarrow> attribution
      | Some prevOption \<Rightarrow>
          (let spotChange = spotPrice currentOption - spotPrice prevOption;
               volChange = volatility currentOption - volatility prevOption;
               rateChange = riskFreeRate currentOption - riskFreeRate prevOption
           in attribution
             \<lparr>PnLComponents.delta := PnLComponents.delta attribution
                 + delta (greeks prevOption) * spotChange * quantity currentOption,
              PnLComponents.theta := PnLComponents.theta attribution
                 + theta (greeks prevOption) * (timeElapsed / 365) * quantity currentOption,
              PnLComponents.vega := PnLComponents.vega attribution
                 + vega (greeks prevOption) * volChange * quantity currentOption,
              PnLComponents.rho := PnLComponents.rho attribution
                 + rho (greeks prevOption) * rateChange * quantity currentOption,
              PnLComponents.gamma := PnLComponents.gamma attribution
                 + 0.5 * gamma (greeks prevOption) * spotChange * spotChange
                   * quantity currentOption\<rparr>))"

text \<open>
  The memoised computation of the component. The props \<open>previousPortfolio\<close> and
  \<open>timeElapsed\<close> are optional; the result is \<open>null\<close> (here \<open>None\<close>) without a previous
  portfolio, and \<open>timeElapsed\<close> defaults to 1 (\<open>elapsedDays\<close>). The computation has no
  \<open>throw\<close>: it has no outcome other than \<open>null\<close> and an attribution.
\<close>

definition elapsedDays :: "real option \<Rightarrow> real" where
  "elapsedDays timeElapsed = (case timeElapsed of None \<Rightarrow> 1 | Some days \<Rightarrow> days)"

definition PnLAttribution ::
  "Portfolio \<Rightarrow> Portfolio option \<Rightarrow> real option \<Rightarrow> PnLComponents option" where
  "PnLAttribution portfolio previousPortfolio timeElapsed =
     (case previousPortfolio of
        None \<Rightarrow> None
      | Some previous \<Rightarrow>
          (let elapsed = elapsedDays timeElapsed;
               attribution0 =
                 \<lparr>PnLComponents.delta = 0, PnLComponents.gamma = 0, PnLComponents.theta = 0,
                  PnLComponents.vega = 0, PnLComponents.rho = 0, unexplained = 0,
                  total = portfolioValue portfolio - portfolioValue previous\<rparr>;
               attribution1 = forEach_index (attributeOption previous elapsed) attribution0
                                (options portfolio) 0
           in Some (attribution1
                \<lparr>unexplained := total attribution1
                   - (PnLComponents.delta attribution1 + PnLComponents.gamma attribution1
                      + PnLComponents.theta attribution1 + PnLComponents.vega attribution1
                      + PnLComponents.rho attribution1)\<rparr>)))"

section \<open>Volatility surface (components/VolatilitySurface.tsx)\<close>

text \<open>
  The two \<open>while\<close> loops of \<open>interpolateVol\<close> are the same loop, on the strikes and on
  the maturities: starting from \<open>i1 = 0\<close>, advance while \<open>i1 < length - 1\<close> and the next
  grid value is at most the query.
\<close>

function nearestIndex :: "real list \<Rightarrow> real \<Rightarrow> nat \<Rightarrow> nat" where
  "nearestIndex xs q i1 =
     (if int i1 < int (length xs) - 1 \<and> xs ! (i1 + 1) \<le> q
      then nearestIndex xs q (i1 + 1) else i1)"
  by pat_completeness auto
termination
  by (relation "measure (\<lambda>(xs, q, i1). length xs - i1)") auto

declare nearestIndex.simps [simp del]

definition lowerIndex :: "real list \<Rightarrow> real \<Rightarrow> nat" where
  "lowerIndex xs q = nearestIndex xs q 0"

definition upperIndex :: "real list \<Rightarrow> real \<Rightarrow> int" where
  "upperIndex xs q = min (int (lowerIndex xs q) + 1) (int (length xs) - 1)"

text \<open>
  The weight along one axis, \<open>(q - xs[i1]) / (xs[i2] - xs[i1] || 1)\<close>; \<open>None\<close> is NaN,
  the result when one of the two array reads is \<open>undefined\<close>.
\<close>

definition weight :: "real list \<Rightarrow> real \<Rightarrow> real option" where
  "weight xs q =
     (case (at_index xs (int (lowerIndex xs q)), at_index xs (upperIndex xs q)) of
        (Some lo, Some hi) \<Rightarrow> Some ((q - lo) / or_else (hi - lo) 1)
      | _ \<Rightarrow> None)"

text \<open>
  \<open>volatilities[j][i]\<close>: a \<open>TypeError\<close> when the row \<open>volatilities[j]\<close> is \<open>undefined\<close>,
  and \<open>undefined\<close> (\<open>Inr None\<close>) when the row has no entry at \<open>i\<close>.
\<close>

definition cell :: "real list list \<Rightarrow> int \<Rightarrow> int \<Rightarrow> js_error + real option" where
  "cell vols j i = (case at_index vols j of None \<Rightarrow> Inl TypeError | Some row \<Rightarrow> Inr (at_index row i))"

text \<open>The bilinear formula, the value of \<open>interpolated\<close> in the source.\<close>

definition interpolated :: "real \<Rightarrow> real \<Rightarrow> real \<Rightarrow> real \<Rightarrow> real \<Rightarrow> real \<Rightarrow> real" where
  "interpolated v11 v12 v21 v22 x y =
     v11 * (1 - x) * (1 - y) + v12 * x * (1 - y) + v21 * (1 - x) * y + v22 * x * y"

text \<open>
  The query point is \<open>(strikeQ, maturityQ)\<close> (\<open>strike\<close> and \<open>maturity\<close> in the source,
  names taken here by the fields of a row). The result is a number, NaN when a weight
  is NaN or a corner is \<open>undefined\<close>, or the \<open>TypeError\<close> of the first corner read that
  throws.
\<close>

definition interpolateVol :: "real \<Rightarrow> real \<Rightarrow> VolSurfaceData \<Rightarrow> js_error + jsnum" where
  "interpolateVol strikeQ maturityQ data =
     (let i1 = int (lowerIndex (strikes data) strikeQ);
          i2 = upperIndex (strikes data) strikeQ;
          j1 = int (lowerIndex (maturities data) maturityQ);
          j2 = upperIndex (maturities data) maturityQ;
          x = weight (strikes data) strikeQ;
          y = weight (maturities data) maturityQ
      in case (cell (volatilities data) j1 i1, cell (volatilities data) j1 i2,
               cell (volatilities data) j2 i1, cell (volatilities data) j2 i2) of
           (Inr v11, Inr v12, Inr v21, Inr v22) \<Rightarrow>
             (case (x, y, v11, v12, v21, v22) of
                (Some x, Some y, Some v11, Some v12, Some v21, Some v22) \<Rightarrow>
                  Inr (Fin (interpolated v11 v12 v21 v22 x y))
              | _ \<Rightarrow> Inr NaN)
         | _ \<Rightarrow> Inl TypeError)"

text \<open>
  The grid built in \<open>onDrop\<close> from the parsed rows: the distinct strikes and maturities
  in ascending order (the order in which \<open>Set\<close> keeps them does not survive the sort),
  and for each grid point the volatility of the first row with that strike and
  maturity, or 0 when there is none.
\<close>

definition buildSurface :: "VolRow list \<Rightarrow> VolSurfaceData" where
  "buildSurface data =
     (let strikes = sort (remdups (map strike data));
          maturities = sort (remdups (map maturity data));
          volatilities = map (\<lambda>mat. map (\<lambda>strike.
              (case find (\<lambda>d. VolRow.strike d = strike \<and> maturity d = mat) data of
                 Some point \<Rightarrow> VolRow.volatility point
               | None \<Rightarrow> 0)) strikes) maturities
      in \<lparr>strikes = strikes, maturities = maturities, volatilities = volatilities\<rparr>)"

section \<open>Sample data of the repository\<close>

text \<open>The first contract of \<open>generateSampleJSON\<close> (src/lib/utils/fileParser.ts).\<close>

definition sampleCall :: Option_t where
  "sampleCall = \<lparr>ticker = ''AAPL'', type = Call, spotPrice = 150, strikePrice = 155,
     timeToExpiry = 0.5, volatility = 0.3, riskFreeRate = 0.05, quantity = 10\<rparr>"

text \<open>The second contract of \<open>generateSampleJSON\<close>.\<close>

definition samplePut :: Option_t where
  "samplePut = \<lparr>ticker = ''AAPL'', type = Put, spotPrice = 150, strikePrice = 145,
     timeToExpiry = 0.25, volatility = 0.35, riskFreeRate = 0.05, quantity = 5\<rparr>"

text \<open>
  The contract of \<open>defaultInputs\<close> (stock 100, strike 100, one year, volatility 0.2,
  rate 0.05) as an option of the portfolio engine.
\<close>

definition defaultOption :: Option_t where
  "defaultOption = \<lparr>ticker = ''DEFAULT'', type = Call, spotPrice = 100, strikePrice = 100,
     timeToExpiry = 1, volatility = 0.2, riskFreeRate = 0.05, quantity = 1\<rparr>"

text \<open>
  A contract at the money with volatility 0.5 and rate 0.125, for which \<open>d2\<close> is
  exactly 0 (in floating point as well: every intermediate value is a dyadic number).
\<close>

definition parityOption :: Option_t where
  "parityOption = \<lparr>ticker = ''X'', type = Call, spotPrice = 100, strikePrice = 100,
     timeToExpiry = 1, volatility = 0.5, riskFreeRate = 0.125, quantity = 1\<rparr>"

text \<open>
  Rows of a surface file with two strikes and two maturities, in the format of
  \<open>generateSampleCSV\<close>.
\<close>

definition sampleRows :: "VolRow list" where
  "sampleRows =
     [\<lparr>strike = 100, maturity = 0.5, volatility = 0.2\<rparr>,
      \<lparr>strike = 110, maturity = 0.5, volatility = 0.3\<rparr>,
      \<lparr>strike = 100, maturity = 1, volatility = 0.22\<rparr>,
      \<lparr>strike = 110, maturity = 1, volatility = 0.32\<rparr>]"

section \<open>Portfolio aggregation\<close>

lemma foldl_totalValue:
  "foldl (\<lambda>sum opt. sum + f opt) a xs = a + sum_list (map f xs)"
  by (induction xs arbitrary: a) (simp_all add: add.assoc)

lemma foldl_addGreeks:
  "foldl addGreeks agg ms =
     \<lparr>delta = delta agg + (\<Sum>m\<leftarrow>ms. delta (greeks m) * quantity m),
      gamma = gamma agg + (\<Sum>m\<leftarrow>ms. gamma (greeks m) * quantity m),
      theta = theta agg + (\<Sum>m\<leftarrow>ms. theta (greeks m) * quantity m),
      vega = vega agg + (\<Sum>m\<leftarrow>ms. vega (greeks m) * quantity m),
      rho = rho agg + (\<Sum>m\<leftarrow>ms. rho (greeks m) * quantity m)\<rparr>"
  by (induction ms arbitrary: agg) (simp_all add: addGreeks_def add.assoc)

lemma calculateOptionMetrics_sel [simp]:
  "price (calculateOptionMetrics opt) = calculateOptionPrice opt"
  "greeks (calculateOptionMetrics opt) = calculateGreeks opt"
  "totalValue (calculateOptionMetrics opt) = calculateOptionPrice opt * quantity opt"
  "quantity (calculateOptionMetrics opt) = quantity opt"
  "spotPrice (calculateOptionMetrics opt) = spotPrice opt"
  "Option_t.strikePrice (calculateOptionMetrics opt) = Option_t.strikePrice opt"
  "timeToExpiry (calculateOptionMetrics opt) = timeToExpiry opt"
  "Option_t.volatility (calculateOptionMetrics opt) = Option_t.volatility opt"
  "Option_t.riskFreeRate (calculateOptionMetrics opt) = Option_t.riskFreeRate opt"
  "type (calculateOptionMetrics opt) = type opt"
  "ticker (calculateOptionMetrics opt) = ticker opt"
  by (simp_all add: calculateOptionMetrics_def Let_def Option_t.extend_def
      Option_t.truncate_def OptionMetrics.fields_def)

lemma options_calculatePortfolioMetrics:
  "options (calculatePortfolioMetrics opts) = map calculateOptionMetrics opts"
  by (simp add: calculatePortfolioMetrics_def Let_def)

text \<open>
  Claim C2. For every list of option contracts, the empty list included, the
  portfolio returned by \<open>calculatePortfolioMetrics\<close> has as total value the sum of
  price times quantity over the contracts, and as each of its five aggregate Greeks
  the sum of that Greek times quantity, where the price and the Greeks of a contract
  are those \<open>calculateOptionPrice\<close> and \<open>calculateGreeks\<close> return for it.
\<close>

theorem aggregation_invariant:
  "portfolioValue (calculatePortfolioMetrics opts)
     = (\<Sum>opt\<leftarrow>opts. calculateOptionPrice opt * quantity opt)
   \<and> delta (aggregateGreeks (calculatePortfolioMetrics opts))
     = (\<Sum>opt\<leftarrow>opts. delta (calculateGreeks opt) * quantity opt)
   \<and> gamma (aggregateGreeks (calculatePortfolioMetrics opts))
     = (\<Sum>opt\<leftarrow>opts. gamma (calculateGreeks opt) * quantity opt)
   \<and> theta (aggregateGreeks (calculatePortfolioMetrics opts))
     = (\<Sum>opt\<leftarrow>opts. theta (calculateGreeks opt) * quantity opt)
   \<and> vega (aggregateGreeks (calculatePortfolioMetrics opts))
     = (\<Sum>opt\<leftarrow>opts. vega (calculateGreeks opt) * quantity opt)
   \<and> rho (aggregateGreeks (calculatePortfolioMetrics opts))
     = (\<Sum>opt\<leftarrow>opts. rho (calculateGreeks opt) * quantity opt)"
  by (simp add: calculatePortfolioMetrics_def Let_def foldl_totalValue foldl_addGreeks
      comp_def)

section \<open>Stress test with no shift\<close>

text \<open>
  The price and the Greeks of a position depend on its contract fields only, so
  pricing a position that has been priced before gives the same position.
\<close>

lemma calculateOptionPrice_cong:
  "Option_t.truncate a = Option_t.truncate b \<Longrightarrow> calculateOptionPrice a = calculateOptionPrice b"
  by (simp add: calculateOptionPrice_def Option_t.truncate_def)

lemma calculateGreeks_cong:
  "Option_t.truncate a = Option_t.truncate b \<Longrightarrow> calculateGreeks a = calculateGreeks b"
  by (simp add: calculateGreeks_def Option_t.truncate_def)

lemma calculateOptionMetrics_cong:
  "Option_t.truncate a = Option_t.truncate b \<Longrightarrow> calculateOptionMetrics a = calculateOptionMetrics b"
  using calculateOptionPrice_cong[of a b] calculateGreeks_cong[of a b]
  by (simp add: calculateOptionMetrics_def Let_def Option_t.truncate_def)

lemma truncate_calculateOptionMetrics:
  "Option_t.truncate (calculateOptionMetrics opt) = Option_t.truncate opt"
  by (simp add: calculateOptionMetrics_def Let_def Option_t.extend_def Option_t.truncate_def)

lemma calculateOptionMetrics_idem:
  "calculateOptionMetrics (calculateOptionMetrics opt) = calculateOptionMetrics opt"
  by (rule calculateOptionMetrics_cong) (rule truncate_calculateOptionMetrics)

lemma calculatePortfolioMetrics_idem:
  "calculatePortfolioMetrics (options (calculatePortfolioMetrics opts))
     = calculatePortfolioMetrics opts"
  by (simp add: calculatePortfolioMetrics_def Let_def comp_def calculateOptionMetrics_idem)

lemma stressedOptions_zero:
  "stressedOptions portfolio \<lparr>spotPriceChange = 0, volatilityChange = 0, rateChange = 0\<rparr>
     = options portfolio"
  by (simp add: stressedOptions_def)

lemma runStressTest_zero:
  "runStressTest portfolio \<lparr>spotPriceChange = 0, volatilityChange = 0, rateChange = 0\<rparr>
     = calculatePortfolioMetrics (options portfolio)"
  by (simp add: runStressTest_def stressedOptions_zero)

text \<open>
  Claim C9. For every portfolio, that is every result of \<open>calculatePortfolioMetrics\<close>
  (the application builds its portfolios with no other function), the stress test
  with \<open>spotPriceChange = 0\<close>, \<open>volatilityChange = 0\<close> and \<open>rateChange = 0\<close> gives a
  portfolio with the same total value and the same five aggregate Greeks.
\<close>

theorem stress_identity:
  "portfolioValue (runStressTest (calculatePortfolioMetrics opts)
       \<lparr>spotPriceChange = 0, volatilityChange = 0, rateChange = 0\<rparr>)
     = portfolioValue (calculatePortfolioMetrics opts)
   \<and> aggregateGreeks (runStressTest (calculatePortfolioMetrics opts)
       \<lparr>spotPriceChange = 0, volatilityChange = 0, rateChange = 0\<rparr>)
     = aggregateGreeks (calculatePortfolioMetrics opts)"
  by (simp add: runStressTest_zero calculatePortfolioMetrics_idem)

section \<open>P\&L attribution\<close>

lemma at_index_nat:
  "at_index xs (int i) = (if i < length xs then Some (xs ! i) else None)"
  by (simp add: at_index_def)

lemma forEach_attributeOption:
  "forEach_index (attributeOption previous te) att curs i =
     att\<lparr>PnLComponents.delta := PnLComponents.delta att
            + (\<Sum>(c, p)\<leftarrow>zip curs (drop i (options previous)).
                 delta (greeks p) * (spotPrice c - spotPrice p) * quantity c),
         PnLComponents.theta := PnLComponents.theta att
            + (\<Sum>(c, p)\<leftarrow>zip curs (drop i (options previous)).
                 theta (greeks p) * (te / 365) * quantity c),
         PnLComponents.vega := PnLComponents.vega att
            + (\<Sum>(c, p)\<leftarrow>zip curs (drop i (options previous)).
                 vega (greeks p) * (Option_t.volatility c - Option_t.volatility p) * quantity c),
         PnLComponents.rho := PnLComponents.rho att
            + (\<Sum>(c, p)\<leftarrow>zip curs (drop i (options previous)).
                 rho (greeks p) * (Option_t.riskFreeRate c - Option_t.riskFreeRate p) * quantity c),
         PnLComponents.gamma := PnLComponents.gamma att
            + (\<Sum>(c, p)\<leftarrow>zip curs (drop i (options previous)).
                 0.5 * gamma (greeks p) * (spotPrice c - spotPrice p) * (spotPrice c - spotPrice p)
                 * quantity c)\<rparr>"
proof (induction curs arbitrary: att i)
  case Nil
  show ?case by simp
next
  case (Cons cur rest)
  show ?case
  proof (cases "i < length (options previous)")
    case True
    then have d: "drop i (options previous) = options previous ! i # drop (Suc i) (options previous)"
      by (simp add: Cons_nth_drop_Suc)
    define att' where "att' = attributeOption previous te att cur i"
    have step: "att' = att
       \<lparr>PnLComponents.delta := PnLComponents.delta att
           + delta (greeks (options previous ! i))
             * (spotPrice cur - spotPrice (options previous ! i)) * quantity cur,
        PnLComponents.theta := PnLComponents.theta att
           + theta (greeks (options previous ! i)) * (te / 365) * quantity cur,
        PnLComponents.vega := PnLComponents.vega att
           + vega (greeks (options previous ! i))
             * (Option_t.volatility cur - Option_t.volatility (options previous ! i))
             * quantity cur,
        PnLComponents.rho := PnLComponents.rho att
           + rho (greeks (options previous ! i))
             * (Option_t.riskFreeRate cur - Option_t.riskFreeRate (options previous ! i))
             * quantity cur,
        PnLComponents.gamma := PnLComponents.gamma att
           + 0.5 * gamma (greeks (options previous ! i))
             * (spotPrice cur - spotPrice (options previous ! i))
             * (spotPrice cur - spotPrice (options previous ! i)) * quantity cur\<rparr>"
      unfolding att'_def by (simp add: attributeOption_def at_index_nat True Let_def)
    have "forEach_index (attributeOption previous te) att (cur # rest) i
            = forEach_index (attributeOption previous te) att' rest (Suc i)"
      by (simp add: att'_def)
    also note Cons.IH [of att' "Suc i"]
    finally show ?thesis
      by (simp add: step d add.assoc)
  next
    case False
    have "attributeOption previous te att cur i = att"
      using False by (simp add: attributeOption_def at_index_nat)
    then have "forEach_index (attributeOption previous te) att (cur # rest) i
            = forEach_index (attributeOption previous te) att rest (Suc i)"
      by simp
    also note Cons.IH [of att "Suc i"]
    finally show ?thesis
      using False by simp
  qed
qed


lemma PnLAttribution_zip:
  "PnLAttribution portfolio (Some previous) timeElapsed =
     (let ps = zip (options portfolio) (options previous);
          D = (\<Sum>(c, p)\<leftarrow>ps. delta (greeks p) * (spotPrice c - spotPrice p) * quantity c);
          G = (\<Sum>(c, p)\<leftarrow>ps. 0.5 * gamma (greeks p) * (spotPrice c - spotPrice p)
                 * (spotPrice c - spotPrice p) * quantity c);
          Th = (\<Sum>(c, p)\<leftarrow>ps. theta (greeks p) * (elapsedDays timeElapsed / 365) * quantity c);
          V = (\<Sum>(c, p)\<leftarrow>ps. vega (greeks p)
                 * (Option_t.volatility c - Option_t.volatility p) * quantity c);
          R = (\<Sum>(c, p)\<leftarrow>ps. rho (greeks p)
                 * (Option_t.riskFreeRate c - Option_t.riskFreeRate p) * quantity c);
          T = portfolioValue portfolio - portfolioValue previous
      in Some \<lparr>PnLComponents.delta = D, PnLComponents.gamma = G, PnLComponents.theta = Th,
               PnLComponents.vega = V, PnLComponents.rho = R,
               unexplained = T - (D + G + Th + V + R), total = T\<rparr>)"
  by (simp add: PnLAttribution_def forEach_attributeOption Let_def elapsedDays_def)

lemma zip_take_min:
  "zip (take (min (length xs) (length ys)) xs) (take (min (length xs) (length ys)) ys) = zip xs ys"
  by (simp add: take_zip [symmetric])

text \<open>
  Claim C3, as amended. For two portfolios whose position lists differ in length the
  attribution does not fail: it returns an attribution, the one of the two portfolios
  with both position lists cut to the shorter length (the totals of the portfolios
  unchanged). Current positions without a previous position at their index are
  skipped, and previous positions beyond the current ones are not read.
\<close>

theorem pnl_mismatch_truncates:
  "PnLAttribution portfolio (Some previous) timeElapsed \<noteq> None
   \<and> PnLAttribution portfolio (Some previous) timeElapsed
     = PnLAttribution
         (portfolio\<lparr>options := take (min (length (options portfolio)) (length (options previous)))
                                   (options portfolio)\<rparr>)
         (Some (previous\<lparr>options := take (min (length (options portfolio)) (length (options previous)))
                                   (options previous)\<rparr>))
         timeElapsed"
  by (simp add: PnLAttribution_zip Let_def zip_take_min)

text \<open>
  Claim C3 as stated fails: with one current position and an empty previous
  portfolio the computation returns an attribution, in which the position is skipped
  and the whole change of value is unexplained.
\<close>

theorem pnl_mismatch_counterexample:
  "length (options (calculatePortfolioMetrics [sampleCall]))
     \<noteq> length (options (calculatePortfolioMetrics ([] :: Option_t list)))
   \<and> PnLAttribution (calculatePortfolioMetrics [sampleCall])
        (Some (calculatePortfolioMetrics ([] :: Option_t list))) None
     = Some \<lparr>PnLComponents.delta = 0, PnLComponents.gamma = 0, PnLComponents.theta = 0,
             PnLComponents.vega = 0, PnLComponents.rho = 0,
             unexplained = calculateOptionPrice sampleCall * 10,
             total = calculateOptionPrice sampleCall * 10\<rparr>"
  by (simp add: PnLAttribution_zip Let_def calculatePortfolioMetrics_def sampleCall_def)

lemma sum_list_zip_nth:
  "length xs = length ys \<Longrightarrow>
     (\<Sum>(c, p)\<leftarrow>zip xs ys. f c p) = (\<Sum>i<length xs. f (xs ! i) (ys ! i))"
proof -
  assume l: "length xs = length ys"
  have "(\<Sum>(c, p)\<leftarrow>zip xs ys. f c p) = (\<Sum>i = 0..<length (zip xs ys). (map (\<lambda>(c, p). f c p) (zip xs ys)) ! i)"
    by (simp add: sum_list_sum_nth)
  also have "\<dots> = (\<Sum>i = 0..<length xs. f (xs ! i) (ys ! i))"
    using l by (intro sum.cong) simp_all
  finally show ?thesis by (simp add: atLeast0LessThan)
qed

text \<open>
  Claim C10. For two aligned portfolios (position lists of the same length), each of
  the five components is the sum over the positions of a Greek of the previous
  position, times the change of its factor, times the quantity of the current
  position; the quantity of the previous position does not occur.
\<close>

theorem pnl_weighted_by_current_quantity:
  assumes "length (options portfolio) = length (options previous)"
  shows "PnLAttribution portfolio (Some previous) timeElapsed =
     (let n = length (options portfolio);
          cur = (\<lambda>i. options portfolio ! i); prev = (\<lambda>i. options previous ! i);
          D = (\<Sum>i<n. delta (greeks (prev i)) * (spotPrice (cur i) - spotPrice (prev i))
                 * quantity (cur i));
          G = (\<Sum>i<n. 0.5 * gamma (greeks (prev i)) * (spotPrice (cur i) - spotPrice (prev i))
                 * (spotPrice (cur i) - spotPrice (prev i)) * quantity (cur i));
          Th = (\<Sum>i<n. theta (greeks (prev i)) * (elapsedDays timeElapsed / 365)
                 * quantity (cur i));
          V = (\<Sum>i<n. vega (greeks (prev i))
                 * (Option_t.volatility (cur i) - Option_t.volatility (prev i)) * quantity (cur i));
          R = (\<Sum>i<n. rho (greeks (prev i))
                 * (Option_t.riskFreeRate (cur i) - Option_t.riskFreeRate (prev i))
                 * quantity (cur i));
          T = portfolioValue portfolio - portfolioValue previous
      in Some \<lparr>PnLComponents.delta = D, PnLComponents.gamma = G, PnLComponents.theta = Th,
               PnLComponents.vega = V, PnLComponents.rho = R,
               unexplained = T - (D + G + Th + V + R), total = T\<rparr>)"
  by (simp add: PnLAttribution_zip Let_def sum_list_zip_nth [OF assms])

theorem pnl_weighted_by_current_quantity_witness:
  "length (options (calculatePortfolioMetrics [sampleCall\<lparr>spotPrice := 153, quantity := 7\<rparr>]))
     = length (options (calculatePortfolioMetrics [sampleCall]))
   \<and> PnLComponents.delta (the (PnLAttribution
         (calculatePortfolioMetrics [sampleCall\<lparr>spotPrice := 153, quantity := 7\<rparr>])
         (Some (calculatePortfolioMetrics [sampleCall])) None))
     = delta (calculateGreeks sampleCall) * 3 * 7"
  using pnl_weighted_by_current_quantity
    [of "calculatePortfolioMetrics [sampleCall\<lparr>spotPrice := 153, quantity := 7\<rparr>]"
        "calculatePortfolioMetrics [sampleCall]" None]
  by (simp add: options_calculatePortfolioMetrics Let_def sampleCall_def)


section \<open>The approximation of the normal distribution function\<close>

lemma normalCDF_nonpos:
  "x \<le> 0 \<Longrightarrow> normalCDF x =
     0.3989423 * exp (- x * x / 2) * (1 / (1 + 0.2316419 * \<bar>x\<bar>))
       * (0.3193815 + (1 / (1 + 0.2316419 * \<bar>x\<bar>)) * (-0.3565638 + (1 / (1 + 0.2316419 * \<bar>x\<bar>))
          * (1.781478 + (1 / (1 + 0.2316419 * \<bar>x\<bar>)) * (-1.821256 + (1 / (1 + 0.2316419 * \<bar>x\<bar>)) * 1.330274))))"
  by (simp add: normalCDF_def Let_def)

lemma normalCDF_pos: "x > 0 \<Longrightarrow> normalCDF x = 1 - normalCDF (- x)"
  by (simp add: normalCDF_def Let_def)

lemma normalCDF_sym: "x \<noteq> 0 \<Longrightarrow> normalCDF x + normalCDF (- x) = 1"
proof (cases "x > 0")
  case True
  then show ?thesis by (simp add: normalCDF_pos)
next
  case False
  assume "x \<noteq> 0"
  with False have "- x > 0" by simp
  from normalCDF_pos [OF this] show ?thesis by simp
qed

lemma poly_nonneg:
  fixes t :: real
  assumes "0 \<le> t" "t \<le> 1"
  shows "0 \<le> 0.3193815 + t * (-0.3565638 + t * (1.781478 + t * (-1.821256 + t * 1.330274)))"
proof -
  have s1: "0 \<le> (t - 9/25)\<^sup>2" by simp
  have s2: "0 \<le> (t - 17/25)\<^sup>2" by simp
  have q1: "0 \<le> 0.3193815 - 0.3565638 * t + 0.5 * (t * t)"
    using s1 assms by (simp add: power2_eq_square algebra_simps)
  have q2: "0 \<le> 1.281478 - 1.821256 * t + 1.330274 * (t * t)"
    using s2 assms by (simp add: power2_eq_square algebra_simps)
  have tt: "0 \<le> t * t" by (rule zero_le_square)
  have "0 \<le> (t * t) * (1.281478 - 1.821256 * t + 1.330274 * (t * t))"
    using tt q2 by (rule mult_nonneg_nonneg)
  with q1 have "0 \<le> (0.3193815 - 0.3565638 * t + 0.5 * (t * t))
      + (t * t) * (1.281478 - 1.821256 * t + 1.330274 * (t * t))" by linarith
  also have "\<dots> = 0.3193815 + t * (-0.3565638 + t * (1.781478 + t * (-1.821256 + t * 1.330274)))"
    by (simp add: algebra_simps)
  finally show ?thesis .
qed

lemma poly_le:
  fixes t :: real
  assumes "0 \<le> t" "t \<le> 1"
  shows "0.3193815 + t * (-0.3565638 + t * (1.781478 + t * (-1.821256 + t * 1.330274))) \<le> 2"
proof -
  have h4: "-1.821256 + t * 1.330274 \<le> 0" using assms by simp
  have "t * (-1.821256 + t * 1.330274) \<le> 0"
    using assms(1) h4 by (rule mult_nonneg_nonpos)
  then have h3: "1.781478 + t * (-1.821256 + t * 1.330274) \<le> 1.781478" by simp
  have "t * (1.781478 + t * (-1.821256 + t * 1.330274)) \<le> t * 1.781478"
    using assms(1) h3 by (rule mult_left_mono[rotated])
  also have "\<dots> \<le> 1.781478" using assms by simp
  finally have h2: "-0.3565638 + t * (1.781478 + t * (-1.821256 + t * 1.330274)) \<le> 1.4249142"
    by simp
  have "t * (-0.3565638 + t * (1.781478 + t * (-1.821256 + t * 1.330274))) \<le> t * 1.4249142"
    using assms(1) h2 by (rule mult_left_mono[rotated])
  also have "\<dots> \<le> 1.4249142" using assms by simp
  finally show ?thesis by simp
qed

lemma normalCDF_tail_bounds:
  assumes "x \<le> 0"
  shows "0 \<le> normalCDF x" and "normalCDF x \<le> 1"
proof -
  define t where "t = 1 / (1 + 0.2316419 * \<bar>x\<bar>)"
  define d where "d = 0.3989423 * exp (- x * x / 2)"
  define q where "q = 0.3193815 + t * (-0.3565638 + t * (1.781478 + t * (-1.821256 + t * 1.330274)))"
  have t: "0 \<le> t" "t \<le> 1" by (simp_all add: t_def)
  have "- x * x / 2 \<le> 0" by simp
  then have "exp (- x * x / 2) \<le> 1" by (simp only: exp_le_one_iff)
  then have d: "0 \<le> d" "d \<le> 0.3989423" by (simp_all add: d_def)
  have q: "0 \<le> q" "q \<le> 2" unfolding q_def using t by (rule poly_nonneg, rule poly_le)
  have eq: "normalCDF x = d * t * q"
    using assms by (simp add: normalCDF_def Let_def t_def d_def q_def)
  have dt: "0 \<le> d * t" using d t by simp
  have "d * t \<le> 0.3989423 * 1" using d t by (intro mult_mono) simp_all
  then have dt1: "d * t \<le> 0.3989423" by simp
  show "0 \<le> normalCDF x" unfolding eq using dt q by simp
  have "d * t * q \<le> 0.3989423 * 2" using dt dt1 q by (intro mult_mono) simp_all
  then show "normalCDF x \<le> 1" unfolding eq by simp
qed

lemma normalCDF_bounds: "0 \<le> normalCDF x \<and> normalCDF x \<le> 1"
proof (cases "x > 0")
  case True
  then have "- x \<le> 0" by simp
  from normalCDF_tail_bounds [OF this] True show ?thesis by (simp add: normalCDF_pos)
next
  case False
  then have "x \<le> 0" by simp
  from normalCDF_tail_bounds [OF this] show ?thesis by simp
qed

lemma normalCDF_zero: "normalCDF 0 = 0.3989423 * 1.2533137"
  by (simp add: normalCDF_def Let_def)

lemma normalPDF_pos: "0 < normalPDF x"
  by (simp add: normalPDF_def)


lemma calculateGreeks_sel:
  "delta (calculateGreeks opt) =
     (if type opt = Call then 1 else -1)
       * normalCDF ((if type opt = Call then 1 else -1)
           * fst (calculateD1D2 (spotPrice opt) (Option_t.strikePrice opt) (timeToExpiry opt)
                    (Option_t.riskFreeRate opt) (Option_t.volatility opt)))"
  "gamma (calculateGreeks opt) =
     normalPDF (fst (calculateD1D2 (spotPrice opt) (Option_t.strikePrice opt) (timeToExpiry opt)
                    (Option_t.riskFreeRate opt) (Option_t.volatility opt)))
       / (spotPrice opt * Option_t.volatility opt * sqrt (timeToExpiry opt))"
  "vega (calculateGreeks opt) =
     spotPrice opt * sqrt (timeToExpiry opt)
       * normalPDF (fst (calculateD1D2 (spotPrice opt) (Option_t.strikePrice opt) (timeToExpiry opt)
                    (Option_t.riskFreeRate opt) (Option_t.volatility opt)))"
  by (simp_all add: calculateGreeks_def Let_def split: prod.splits)

text \<open>
  Claim C8. For every option with spot, strike, maturity and volatility positive, and
  any rate, \<open>calculateGreeks\<close> returns a gamma and a vega that are not negative, a delta
  in \<open>[0, 1]\<close> for a Call and a delta in \<open>[-1, 0]\<close> for a Put.
\<close>

theorem greek_bounds:
  assumes "spotPrice opt > 0" and "Option_t.strikePrice opt > 0"
    and "timeToExpiry opt > 0" and "Option_t.volatility opt > 0"
  shows "gamma (calculateGreeks opt) \<ge> 0
     \<and> vega (calculateGreeks opt) \<ge> 0
     \<and> (type opt = Call \<longrightarrow>
          0 \<le> delta (calculateGreeks opt) \<and> delta (calculateGreeks opt) \<le> 1)
     \<and> (type opt = Put \<longrightarrow>
          -1 \<le> delta (calculateGreeks opt) \<and> delta (calculateGreeks opt) \<le> 0)"
proof -
  define dd where "dd = fst (calculateD1D2 (spotPrice opt) (Option_t.strikePrice opt)
     (timeToExpiry opt) (Option_t.riskFreeRate opt) (Option_t.volatility opt))"
  have den: "0 < spotPrice opt * Option_t.volatility opt * sqrt (timeToExpiry opt)"
    using assms by simp
  have g: "gamma (calculateGreeks opt) \<ge> 0"
    unfolding calculateGreeks_sel dd_def [symmetric]
    using den normalPDF_pos [of dd] by (simp add: divide_nonneg_pos less_imp_le)
  have v: "vega (calculateGreeks opt) \<ge> 0"
    unfolding calculateGreeks_sel dd_def [symmetric]
    using assms normalPDF_pos [of dd] by (simp add: less_imp_le)
  have c: "type opt = Call \<Longrightarrow>
      0 \<le> delta (calculateGreeks opt) \<and> delta (calculateGreeks opt) \<le> 1"
    unfolding calculateGreeks_sel dd_def [symmetric]
    using normalCDF_bounds [of dd] by simp
  have p: "type opt = Put \<Longrightarrow>
      -1 \<le> delta (calculateGreeks opt) \<and> delta (calculateGreeks opt) \<le> 0"
    unfolding calculateGreeks_sel dd_def [symmetric]
    using normalCDF_bounds [of "- dd"] by simp
  from g v c p show ?thesis by blast
qed

theorem greek_bounds_witness:
  "(gamma (calculateGreeks sampleCall) \<ge> 0 \<and> vega (calculateGreeks sampleCall) \<ge> 0
     \<and> 0 \<le> delta (calculateGreeks sampleCall) \<and> delta (calculateGreeks sampleCall) \<le> 1)
   \<and> (gamma (calculateGreeks samplePut) \<ge> 0 \<and> vega (calculateGreeks samplePut) \<ge> 0
     \<and> -1 \<le> delta (calculateGreeks samplePut) \<and> delta (calculateGreeks samplePut) \<le> 0)"
  using greek_bounds [of sampleCall] greek_bounds [of samplePut]
  by (simp add: sampleCall_def samplePut_def)

section \<open>Put-call parity\<close>

lemma calculateOptionPrice_Call:
  "type opt = Call \<Longrightarrow> calculateOptionPrice opt =
     (let d = calculateD1D2 (spotPrice opt) (Option_t.strikePrice opt) (timeToExpiry opt)
                (Option_t.riskFreeRate opt) (Option_t.volatility opt)
      in spotPrice opt * normalCDF (fst d)
         - Option_t.strikePrice opt * exp (- Option_t.riskFreeRate opt * timeToExpiry opt)
           * normalCDF (snd d))"
  by (simp add: calculateOptionPrice_def Let_def split: prod.splits)

lemma calculateOptionPrice_Put:
  "type opt = Put \<Longrightarrow> calculateOptionPrice opt =
     (let d = calculateD1D2 (spotPrice opt) (Option_t.strikePrice opt) (timeToExpiry opt)
                (Option_t.riskFreeRate opt) (Option_t.volatility opt)
      in Option_t.strikePrice opt * exp (- Option_t.riskFreeRate opt * timeToExpiry opt)
           * normalCDF (- snd d)
         - spotPrice opt * normalCDF (- fst d))"
  by (simp add: calculateOptionPrice_def Let_def split: prod.splits)

lemma call_minus_put:
  "calculateOptionPrice (opt\<lparr>type := Call\<rparr>) - calculateOptionPrice (opt\<lparr>type := Put\<rparr>) =
     (let d = calculateD1D2 (spotPrice opt) (Option_t.strikePrice opt) (timeToExpiry opt)
                (Option_t.riskFreeRate opt) (Option_t.volatility opt)
      in spotPrice opt * (normalCDF (fst d) + normalCDF (- fst d))
         - Option_t.strikePrice opt * exp (- Option_t.riskFreeRate opt * timeToExpiry opt)
           * (normalCDF (snd d) + normalCDF (- snd d)))"
  by (simp add: calculateOptionPrice_Call calculateOptionPrice_Put Let_def algebra_simps)

lemma normalCDF_zero_gap: "0 < 1 - 2 * normalCDF 0" "1 - 2 * normalCDF 0 \<le> 3 / 10 ^ 7"
  by (simp_all add: normalCDF_zero)

lemma normalCDF_sym_gap: "\<bar>normalCDF x + normalCDF (- x) - 1\<bar> \<le> 1 - 2 * normalCDF 0"
proof (cases "x = 0")
  case True
  then show ?thesis using normalCDF_zero_gap(1) by simp
next
  case False
  from normalCDF_sym [OF this] show ?thesis using normalCDF_zero_gap(1) by simp
qed

text \<open>
  Claim C5, as amended. For every contract with spot, strike, maturity and volatility
  positive, the price of the Call minus the price of the Put equals
  \<open>S - K * exp (- r * T)\<close> within \<open>(S + K * exp (- r * T)) * (1 - 2 * normalCDF 0)\<close>, where
  \<open>1 - 2 * normalCDF 0\<close> is positive and at most \<open>3e-7\<close>. The bound does not depend on
  whether \<open>d1\<close> or \<open>d2\<close> is zero: \<open>normalCDF x + normalCDF (- x)\<close> is 1 where \<open>x\<close> is not
  zero and \<open>2 * normalCDF 0\<close> where it is.
\<close>

theorem put_call_parity_bound:
  assumes "spotPrice opt > 0" and "Option_t.strikePrice opt > 0"
    and "timeToExpiry opt > 0" and "Option_t.volatility opt > 0"
  shows "\<bar>(calculateOptionPrice (opt\<lparr>type := Call\<rparr>) - calculateOptionPrice (opt\<lparr>type := Put\<rparr>))
          - (spotPrice opt
             - Option_t.strikePrice opt * exp (- Option_t.riskFreeRate opt * timeToExpiry opt))\<bar>
       \<le> (spotPrice opt
            + Option_t.strikePrice opt * exp (- Option_t.riskFreeRate opt * timeToExpiry opt))
           * (1 - 2 * normalCDF 0)
     \<and> 0 < 1 - 2 * normalCDF 0 \<and> 1 - 2 * normalCDF 0 \<le> 3 / 10 ^ 7"
proof -
  define S where "S = spotPrice opt"
  define Kd where "Kd = Option_t.strikePrice opt
                          * exp (- Option_t.riskFreeRate opt * timeToExpiry opt)"
  define a where "a = fst (calculateD1D2 (spotPrice opt) (Option_t.strikePrice opt)
     (timeToExpiry opt) (Option_t.riskFreeRate opt) (Option_t.volatility opt))"
  define b where "b = snd (calculateD1D2 (spotPrice opt) (Option_t.strikePrice opt)
     (timeToExpiry opt) (Option_t.riskFreeRate opt) (Option_t.volatility opt))"
  define eps where "eps = 1 - 2 * normalCDF 0"
  have pos: "0 \<le> S" "0 \<le> Kd" using assms by (simp_all add: S_def Kd_def)
  have d: "calculateOptionPrice (opt\<lparr>type := Call\<rparr>) - calculateOptionPrice (opt\<lparr>type := Put\<rparr>)
      = S * (normalCDF a + normalCDF (- a)) - Kd * (normalCDF b + normalCDF (- b))"
    unfolding call_minus_put by (simp add: Let_def S_def Kd_def a_def b_def)
  have "(S * (normalCDF a + normalCDF (- a)) - Kd * (normalCDF b + normalCDF (- b))) - (S - Kd)
      = S * (normalCDF a + normalCDF (- a) - 1) - Kd * (normalCDF b + normalCDF (- b) - 1)"
    by (simp add: algebra_simps)
  also have "\<bar>\<dots>\<bar> \<le> \<bar>S * (normalCDF a + normalCDF (- a) - 1)\<bar>
                     + \<bar>Kd * (normalCDF b + normalCDF (- b) - 1)\<bar>"
    by (rule abs_triangle_ineq4)
  also have "\<dots> = S * \<bar>normalCDF a + normalCDF (- a) - 1\<bar>
                   + Kd * \<bar>normalCDF b + normalCDF (- b) - 1\<bar>"
    using pos by (simp add: abs_mult)
  also have "\<dots> \<le> S * eps + Kd * eps"
    unfolding eps_def using pos normalCDF_sym_gap [of a] normalCDF_sym_gap [of b]
    by (intro add_mono mult_left_mono) simp_all
  also have "\<dots> = (S + Kd) * eps" by (simp add: algebra_simps)
  finally have "\<bar>(S * (normalCDF a + normalCDF (- a)) - Kd * (normalCDF b + normalCDF (- b)))
                   - (S - Kd)\<bar> \<le> (S + Kd) * eps" .
  then show ?thesis
    using normalCDF_zero_gap unfolding d
    by (simp add: S_def Kd_def eps_def)
qed

lemma parityOption_d1d2: "calculateD1D2 100 100 1 (1 / 8) (1 / 2) = (1 / 2, 0)"
  by (simp add: calculateD1D2_def Let_def)

text \<open>
  Claim C5 as stated fails where \<open>d2 = 0\<close>: \<open>normalCDF 0\<close> is \<open>0.3989423 * 1.2533137\<close>,
  which is below one half by about \<open>1.5e-7\<close>, and at spot and strike 100 the difference
  of the prices misses \<open>S - K * exp (- r * T)\<close> by more than \<open>1e-6\<close>.
\<close>

theorem put_call_parity_counterexample:
  "\<not> \<bar>(calculateOptionPrice (parityOption\<lparr>type := Call\<rparr>)
        - calculateOptionPrice (parityOption\<lparr>type := Put\<rparr>))
       - (spotPrice parityOption - Option_t.strikePrice parityOption
            * exp (- Option_t.riskFreeRate parityOption * timeToExpiry parityOption))\<bar>
     \<le> 1 / 10 ^ 6"
proof -
  have e: "7 / 8 \<le> exp (- (1 / 8 :: real))"
    using exp_ge_add_one_self [of "- (1 / 8 :: real)"] by simp
  have s: "normalCDF (1 / 2) + normalCDF (- (1 / 2)) = 1"
    by (rule normalCDF_sym) simp
  have "calculateOptionPrice (parityOption\<lparr>type := Call\<rparr>)
        - calculateOptionPrice (parityOption\<lparr>type := Put\<rparr>)
      = 100 * (normalCDF (1 / 2) + normalCDF (- (1 / 2)))
        - 100 * exp (- (1 / 8)) * (normalCDF 0 + normalCDF 0)"
    unfolding call_minus_put by (simp add: parityOption_def parityOption_d1d2 Let_def)
  then have "(calculateOptionPrice (parityOption\<lparr>type := Call\<rparr>)
        - calculateOptionPrice (parityOption\<lparr>type := Put\<rparr>))
       - (spotPrice parityOption - Option_t.strikePrice parityOption
            * exp (- Option_t.riskFreeRate parityOption * timeToExpiry parityOption))
      = 100 * exp (- (1 / 8)) * (1 - 2 * normalCDF 0)"
    unfolding s by (simp add: parityOption_def algebra_simps)
  also have "\<dots> = exp (- (1 / 8)) * (100 * (1 - 2 * (0.3989423 * 1.2533137)))"
    by (simp add: normalCDF_zero)
  finally have eq: "(calculateOptionPrice (parityOption\<lparr>type := Call\<rparr>)
        - calculateOptionPrice (parityOption\<lparr>type := Put\<rparr>))
       - (spotPrice parityOption - Option_t.strikePrice parityOption
            * exp (- Option_t.riskFreeRate parityOption * timeToExpiry parityOption))
      = exp (- (1 / 8)) * (100 * (1 - 2 * (0.3989423 * 1.2533137)))" .
  have "7 / 8 * (100 * (1 - 2 * (0.3989423 * 1.2533137 :: real)))
       \<le> exp (- (1 / 8)) * (100 * (1 - 2 * (0.3989423 * 1.2533137)))"
    using e by (intro mult_right_mono) simp_all
  moreover have "(1 / 10 ^ 6 :: real) < 7 / 8 * (100 * (1 - 2 * (0.3989423 * 1.2533137)))"
    by simp
  ultimately show ?thesis unfolding eq by linarith
qed


theorem put_call_parity_bound_witness:
  "\<bar>(calculateOptionPrice (parityOption\<lparr>type := Call\<rparr>)
      - calculateOptionPrice (parityOption\<lparr>type := Put\<rparr>))
     - (100 - 100 * exp (- (1 / 8)))\<bar>
   \<le> (100 + 100 * exp (- (1 / 8))) * (1 - 2 * normalCDF 0)"
  using put_call_parity_bound [of parityOption]
  by (simp add: parityOption_def)

section \<open>The put price of the calculator\<close>

lemma calculateBlackScholes_put:
  "\<not> isCall inputs \<Longrightarrow>
   optionPrice (calculateBlackScholes cdf pdf inputs) =
     (let S = stockPrice inputs; K = BlackScholesInputs.strikePrice inputs;
          T = timeToMaturity inputs; r = BlackScholesInputs.riskFreeRate inputs;
          out = calculateBlackScholes cdf pdf inputs
      in K * exp (- r * T) * (1 - cdf (- d2 out) 0 1) - S * (1 - cdf (- d1 out) 0 1))"
  by (simp add: calculateBlackScholes_def Let_def)

lemma defaultInputs_put_d1d2:
  "d1 (calculateBlackScholes cdf pdf (defaultInputs\<lparr>isCall := False\<rparr>)) = 7 / 20"
  "d2 (calculateBlackScholes cdf pdf (defaultInputs\<lparr>isCall := False\<rparr>)) = 3 / 20"
  by (simp_all add: calculateBlackScholes_def defaultInputs_def Let_def)

text \<open>
  Claim C1 says that both pricing functions return
  \<open>K * exp (- r * T) * N (- d2) - S * N (- d1)\<close> for a Put. \<open>calculateOptionPrice\<close> does
  (\<open>calculateOptionPrice_Put\<close>). \<open>calculateBlackScholes\<close> does not: for a Put its \<open>Nd1\<close>
  and \<open>Nd2\<close> are already \<open>N (- d1)\<close> and \<open>N (- d2)\<close>, and the price takes \<open>1 - Nd2\<close> and
  \<open>1 - Nd1\<close>. At the default inputs of the calculator with \<open>isCall = false\<close>, for every
  function \<open>cdf\<close> in the place of \<open>jStat.normal.cdf\<close> with
  \<open>cdf (-0.35) \<le> cdf (-0.15) < 1/2\<close> (the normal distribution function is one), the
  price returned differs from the formula, and is negative.
\<close>

theorem calculateBlackScholes_put_differs:
  assumes "cdf (- (7 / 20)) 0 1 \<le> cdf (- (3 / 20)) 0 1" and "cdf (- (3 / 20)) 0 1 < 1 / 2"
  shows "(let inputs = defaultInputs\<lparr>isCall := False\<rparr>;
              S = stockPrice inputs; K = BlackScholesInputs.strikePrice inputs;
              T = timeToMaturity inputs; r = BlackScholesInputs.riskFreeRate inputs;
              out = calculateBlackScholes cdf pdf inputs
          in optionPrice out \<noteq> K * exp (- r * T) * cdf (- d2 out) 0 1 - S * cdf (- d1 out) 0 1
             \<and> optionPrice out < 0)"
proof -
  define a where "a = cdf (- (3 / 20)) 0 1"
  define b where "b = cdf (- (7 / 20)) 0 1"
  define e where "e = exp (- (1 / 20 :: real))"
  have e: "0 < e" "e < 1" by (simp_all add: e_def)
  have ab: "b \<le> a" "a < 1 / 2" using assms by (simp_all add: a_def b_def)
  have p: "optionPrice (calculateBlackScholes cdf pdf (defaultInputs\<lparr>isCall := False\<rparr>))
      = 100 * e * (1 - a) - 100 * (1 - b)"
    by (simp add: calculateBlackScholes_put defaultInputs_put_d1d2 Let_def a_def b_def e_def)
      (simp add: defaultInputs_def)
  have "e * (1 - 2 * a) < 1 * (1 - 2 * a)"
    using e ab by (intro mult_strict_right_mono) simp_all
  then have lt: "100 * e * (1 - a) - 100 * (1 - b) < 100 * e * a - 100 * b"
    using ab by (simp add: algebra_simps)
  have "e * (1 - a) < 1 * (1 - a)"
    using e ab by (intro mult_strict_right_mono) simp_all
  then have neg: "100 * e * (1 - a) - 100 * (1 - b) < 0"
    using ab by (simp add: algebra_simps)
  have f: "100 * exp (- (1 / 20) * 1) * cdf (- (3 / 20)) 0 1 - 100 * cdf (- (7 / 20)) 0 1
      = 100 * e * a - 100 * b"
    by (simp add: a_def b_def e_def)
  show ?thesis
    using lt neg
    by (simp add: Let_def p defaultInputs_put_d1d2)
       (simp add: defaultInputs_def a_def b_def e_def)
qed

theorem calculateBlackScholes_put_differs_witness:
  "(let inputs = defaultInputs\<lparr>isCall := False\<rparr>;
        out = calculateBlackScholes (\<lambda>x mean std. normalCDF x) (\<lambda>x mean std. normalPDF x) inputs
    in optionPrice out
         \<noteq> 100 * exp (- (1 / 20)) * normalCDF (- (3 / 20)) - 100 * normalCDF (- (7 / 20))
       \<and> optionPrice out < 0)"
proof -
  define g :: "real \<Rightarrow> real" where
    "g = (\<lambda>u. let t = 1 / (1 + 0.2316419 * u)
               in 0.3989423 * t * (0.3193815 + t * (-0.3565638 + t * (1.781478
                    + t * (-1.821256 + t * 1.330274)))))"
  have n: "normalCDF x = exp (- x * x / 2) * g \<bar>x\<bar>" if "x \<le> 0" for x
    using that by (simp add: normalCDF_def g_def Let_def)
  have g: "g (7 / 20) \<le> g (3 / 20)" "0 \<le> g (7 / 20)" "g (3 / 20) < 1 / 2"
    by (simp_all add: g_def Let_def)
  have e: "exp (- (49 / 800 :: real)) \<le> exp (- (9 / 800))" "exp (- (9 / 800 :: real)) \<le> 1"
    by simp_all
  have n1: "normalCDF (- (7 / 20)) = exp (- (49 / 800)) * g (7 / 20)"
    by (simp add: n)
  have n2: "normalCDF (- (3 / 20)) = exp (- (9 / 800)) * g (3 / 20)"
    by (simp add: n)
  have h1: "normalCDF (- (7 / 20)) \<le> normalCDF (- (3 / 20))"
    unfolding n1 n2 using g e by (intro mult_mono) simp_all
  have "exp (- (9 / 800)) * g (3 / 20) \<le> 1 * g (3 / 20)"
    using g e by (intro mult_right_mono) simp_all
  then have h2: "normalCDF (- (3 / 20)) < 1 / 2"
    unfolding n2 using g by simp
  from calculateBlackScholes_put_differs
         [of "\<lambda>x mean std. normalCDF x" "\<lambda>x mean std. normalPDF x", OF h1 h2]
  show ?thesis
    by (simp add: Let_def defaultInputs_put_d1d2) (simp add: defaultInputs_def)
qed


section \<open>Volatility surface\<close>

lemma nearestIndex_props:
  "k < length xs \<Longrightarrow> xs ! k \<le> q \<Longrightarrow>
     k \<le> nearestIndex xs q k \<and> nearestIndex xs q k < length xs
     \<and> xs ! nearestIndex xs q k \<le> q
     \<and> (Suc (nearestIndex xs q k) < length xs \<longrightarrow> q < xs ! Suc (nearestIndex xs q k))"
proof (induction xs q k rule: nearestIndex.induct)
  case (1 xs q i1)
  show ?case
  proof (cases "int i1 < int (length xs) - 1 \<and> xs ! (i1 + 1) \<le> q")
    case True
    then have "i1 + 1 < length xs" "xs ! (i1 + 1) \<le> q" by auto
    from "1.IH" [OF True this] have
      "i1 + 1 \<le> nearestIndex xs q (i1 + 1) \<and> nearestIndex xs q (i1 + 1) < length xs
       \<and> xs ! nearestIndex xs q (i1 + 1) \<le> q
       \<and> (Suc (nearestIndex xs q (i1 + 1)) < length xs
            \<longrightarrow> q < xs ! Suc (nearestIndex xs q (i1 + 1)))" .
    moreover have "nearestIndex xs q i1 = nearestIndex xs q (i1 + 1)"
      using True by (subst nearestIndex.simps) auto
    ultimately show ?thesis by simp
  next
    case False
    then have r: "nearestIndex xs q i1 = i1"
      by (subst nearestIndex.simps) auto
    from False have "Suc i1 < length xs \<Longrightarrow> q < xs ! Suc i1" by auto
    with "1.prems" show ?thesis unfolding r by simp
  qed
qed

lemma lowerIndex_props:
  assumes "xs \<noteq> []" and "xs ! 0 \<le> q"
  shows "lowerIndex xs q < length xs" and "xs ! lowerIndex xs q \<le> q"
    and "Suc (lowerIndex xs q) < length xs \<Longrightarrow> q < xs ! Suc (lowerIndex xs q)"
  using nearestIndex_props [of 0 xs q] assms by (simp_all add: lowerIndex_def)

lemma lowerIndex_grid_point:
  assumes "sorted_wrt (<) xs" and "i < length xs"
  shows "lowerIndex xs (xs ! i) = i"
proof -
  have ne: "xs \<noteq> []" using assms by auto
  have le0: "xs ! 0 \<le> xs ! i"
    using assms by (cases "i = 0") (auto dest: sorted_wrt_nth_less [where i = 0 and j = i])
  define r where "r = lowerIndex xs (xs ! i)"
  have r: "r < length xs" "xs ! r \<le> xs ! i"
    "Suc r < length xs \<Longrightarrow> xs ! i < xs ! Suc r"
    unfolding r_def using lowerIndex_props [OF ne le0] by simp_all
  have "\<not> i < r"
    using sorted_wrt_nth_less [OF assms(1), of i r] r by auto
  moreover have "\<not> r < i"
  proof
    assume "r < i"
    then have s: "Suc r < length xs" "Suc r \<le> i" using assms by simp_all
    have "xs ! Suc r \<le> xs ! i"
      using s assms sorted_wrt_nth_less [OF assms(1), of "Suc r" i]
      by (cases "Suc r = i") auto
    with r(3) [OF s(1)] show False by simp
  qed
  ultimately show ?thesis unfolding r_def by simp
qed

lemma upperIndex_cases:
  assumes "lowerIndex xs q < length xs"
  shows "upperIndex xs q = (if Suc (lowerIndex xs q) < length xs
                             then int (Suc (lowerIndex xs q)) else int (lowerIndex xs q))"
  using assms by (auto simp: upperIndex_def)

lemma weight_grid_point:
  assumes "sorted_wrt (<) xs" and "i < length xs"
  shows "weight xs (xs ! i) = Some 0"
  using assms
  by (simp add: weight_def lowerIndex_grid_point upperIndex_cases at_index_def)


lemma weight_props:
  assumes "xs \<noteq> []" and "xs ! 0 \<le> q"
  shows "\<exists>x. weight xs q = Some x
           \<and> (Suc (lowerIndex xs q) < length xs \<longrightarrow> 0 \<le> x \<and> x < 1)
           \<and> (\<not> Suc (lowerIndex xs q) < length xs \<longrightarrow> x = q - xs ! lowerIndex xs q)"
proof -
  note p = lowerIndex_props [OF assms]
  show ?thesis
  proof (cases "Suc (lowerIndex xs q) < length xs")
    case True
    define lo where "lo = xs ! lowerIndex xs q"
    define hi where "hi = xs ! Suc (lowerIndex xs q)"
    have b: "lo \<le> q" "q < hi"
      using p True by (simp_all add: lo_def hi_def)
    have n: "nat (1 + int (lowerIndex xs q)) = Suc (lowerIndex xs q)" by simp
    have w: "weight xs q = Some ((q - lo) / (hi - lo))"
      using True p(1) b
      by (simp add: weight_def upperIndex_cases at_index_def or_else_def n lo_def hi_def)
    have "0 \<le> (q - lo) / (hi - lo)" using b by simp
    moreover have "(q - lo) / (hi - lo) < 1" using b by simp
    ultimately show ?thesis using True w by simp
  next
    case False
    then show ?thesis
      using p(1) by (simp add: weight_def upperIndex_cases at_index_def or_else_def)
  qed
qed

lemma bilinear_bounds:
  fixes x y :: real
  assumes "0 \<le> x" "x \<le> 1" "0 \<le> y" "y \<le> 1"
  shows "min (min v11 v12) (min v21 v22)
           \<le> v11 * (1 - x) * (1 - y) + v12 * x * (1 - y) + v21 * (1 - x) * y + v22 * x * y"
    and "v11 * (1 - x) * (1 - y) + v12 * x * (1 - y) + v21 * (1 - x) * y + v22 * x * y
           \<le> max (max v11 v12) (max v21 v22)"
proof -
  define lo where "lo = min (min v11 v12) (min v21 v22)"
  define hi where "hi = max (max v11 v12) (max v21 v22)"
  have w: "0 \<le> (1 - x) * (1 - y)" "0 \<le> x * (1 - y)" "0 \<le> (1 - x) * y" "0 \<le> x * y"
    using assms by simp_all
  have s: "(1 - x) * (1 - y) + x * (1 - y) + (1 - x) * y + x * y = 1"
    by (simp add: algebra_simps)
  have l: "lo \<le> v11" "lo \<le> v12" "lo \<le> v21" "lo \<le> v22" by (simp_all add: lo_def)
  have h: "v11 \<le> hi" "v12 \<le> hi" "v21 \<le> hi" "v22 \<le> hi" by (simp_all add: hi_def)
  have "lo * ((1 - x) * (1 - y)) + lo * (x * (1 - y)) + lo * ((1 - x) * y) + lo * (x * y)
      \<le> v11 * ((1 - x) * (1 - y)) + v12 * (x * (1 - y)) + v21 * ((1 - x) * y) + v22 * (x * y)"
    by (intro add_mono mult_right_mono l w)
  moreover have "lo * ((1 - x) * (1 - y)) + lo * (x * (1 - y)) + lo * ((1 - x) * y) + lo * (x * y)
      = lo * ((1 - x) * (1 - y) + x * (1 - y) + (1 - x) * y + x * y)"
    by (simp only: distrib_left)
  ultimately show "min (min v11 v12) (min v21 v22)
           \<le> v11 * (1 - x) * (1 - y) + v12 * x * (1 - y) + v21 * (1 - x) * y + v22 * x * y"
    unfolding s lo_def [symmetric] by (simp add: mult.assoc)
  have "v11 * ((1 - x) * (1 - y)) + v12 * (x * (1 - y)) + v21 * ((1 - x) * y) + v22 * (x * y)
      \<le> hi * ((1 - x) * (1 - y)) + hi * (x * (1 - y)) + hi * ((1 - x) * y) + hi * (x * y)"
    by (intro add_mono mult_right_mono h w)
  moreover have "hi * ((1 - x) * (1 - y)) + hi * (x * (1 - y)) + hi * ((1 - x) * y) + hi * (x * y)
      = hi * ((1 - x) * (1 - y) + x * (1 - y) + (1 - x) * y + x * y)"
    by (simp only: distrib_left)
  ultimately show "v11 * (1 - x) * (1 - y) + v12 * x * (1 - y) + v21 * (1 - x) * y + v22 * x * y
           \<le> max (max v11 v12) (max v21 v22)"
    unfolding s hi_def [symmetric] by (simp add: mult.assoc)
qed

lemma buildSurface_sel:
  "strikes (buildSurface data) = sort (remdups (map strike data))"
  "maturities (buildSurface data) = sort (remdups (map maturity data))"
  "length (volatilities (buildSurface data)) = length (maturities (buildSurface data))"
  by (simp_all add: buildSurface_def Let_def)

lemma buildSurface_row:
  "j < length (maturities (buildSurface data)) \<Longrightarrow>
     length (volatilities (buildSurface data) ! j) = length (strikes (buildSurface data))"
  by (simp add: buildSurface_def Let_def)

lemma buildSurface_sorted:
  "sorted_wrt (<) (strikes (buildSurface data))"
  "sorted_wrt (<) (maturities (buildSurface data))"
  by (simp_all add: buildSurface_sel strict_sorted_iff)

lemma buildSurface_nonempty:
  assumes "data \<noteq> []"
  shows "strikes (buildSurface data) \<noteq> []" and "maturities (buildSurface data) \<noteq> []"
proof -
  have "set (strikes (buildSurface data)) = strike ` set data"
    "set (maturities (buildSurface data)) = maturity ` set data"
    by (simp_all add: buildSurface_sel)
  moreover have "set data \<noteq> {}" using assms by simp
  ultimately have "set (strikes (buildSurface data)) \<noteq> {}"
    "set (maturities (buildSurface data)) \<noteq> {}" by simp_all
  then show "strikes (buildSurface data) \<noteq> []" and "maturities (buildSurface data) \<noteq> []"
    by (simp_all only: set_empty, simp_all)
qed

lemma buildSurface_cell:
  assumes "j < length (maturities (buildSurface data))"
    and "i < length (strikes (buildSurface data))"
  shows "cell (volatilities (buildSurface data)) (int j) (int i)
           = Inr (Some (volatilities (buildSurface data) ! j ! i))"
  using assms buildSurface_row [OF assms(1)]
  by (simp add: cell_def at_index_def buildSurface_sel(3))


lemma nat_one_plus_int: "nat (1 + int n) = Suc n"
  by simp

lemma upperIndex_range:
  assumes "lowerIndex xs q < length xs"
  shows "upperIndex xs q = int (nat (upperIndex xs q))" and "nat (upperIndex xs q) < length xs"
    and "nat (upperIndex xs q) = lowerIndex xs q \<longleftrightarrow> \<not> Suc (lowerIndex xs q) < length xs"
  using assms by (simp_all add: upperIndex_cases nat_one_plus_int)

lemma interpolateVol_built:
  assumes i1: "lowerIndex (strikes (buildSurface data)) strikeQ
                 < length (strikes (buildSurface data))"
    and j1: "lowerIndex (maturities (buildSurface data)) maturityQ
                 < length (maturities (buildSurface data))"
    and x: "weight (strikes (buildSurface data)) strikeQ = Some x"
    and y: "weight (maturities (buildSurface data)) maturityQ = Some y"
  shows "interpolateVol strikeQ maturityQ (buildSurface data) =
     Inr (Fin
       (volatilities (buildSurface data)
            ! lowerIndex (maturities (buildSurface data)) maturityQ
            ! lowerIndex (strikes (buildSurface data)) strikeQ * (1 - x) * (1 - y)
        + volatilities (buildSurface data)
            ! lowerIndex (maturities (buildSurface data)) maturityQ
            ! nat (upperIndex (strikes (buildSurface data)) strikeQ) * x * (1 - y)
        + volatilities (buildSurface data)
            ! nat (upperIndex (maturities (buildSurface data)) maturityQ)
            ! lowerIndex (strikes (buildSurface data)) strikeQ * (1 - x) * y
        + volatilities (buildSurface data)
            ! nat (upperIndex (maturities (buildSurface data)) maturityQ)
            ! nat (upperIndex (strikes (buildSurface data)) strikeQ) * x * y))"
proof -
  note ui = upperIndex_range [OF i1]
  note uj = upperIndex_range [OF j1]
  have c: "cell (volatilities (buildSurface data))
             (int (lowerIndex (maturities (buildSurface data)) maturityQ))
             (int (lowerIndex (strikes (buildSurface data)) strikeQ))
           = Inr (Some (volatilities (buildSurface data)
                  ! lowerIndex (maturities (buildSurface data)) maturityQ
                  ! lowerIndex (strikes (buildSurface data)) strikeQ))"
    "cell (volatilities (buildSurface data))
             (int (lowerIndex (maturities (buildSurface data)) maturityQ))
             (upperIndex (strikes (buildSurface data)) strikeQ)
           = Inr (Some (volatilities (buildSurface data)
                  ! lowerIndex (maturities (buildSurface data)) maturityQ
                  ! nat (upperIndex (strikes (buildSurface data)) strikeQ)))"
    "cell (volatilities (buildSurface data))
             (upperIndex (maturities (buildSurface data)) maturityQ)
             (int (lowerIndex (strikes (buildSurface data)) strikeQ))
           = Inr (Some (volatilities (buildSurface data)
                  ! nat (upperIndex (maturities (buildSurface data)) maturityQ)
                  ! lowerIndex (strikes (buildSurface data)) strikeQ))"
    "cell (volatilities (buildSurface data))
             (upperIndex (maturities (buildSurface data)) maturityQ)
             (upperIndex (strikes (buildSurface data)) strikeQ)
           = Inr (Some (volatilities (buildSurface data)
                  ! nat (upperIndex (maturities (buildSurface data)) maturityQ)
                  ! nat (upperIndex (strikes (buildSurface data)) strikeQ)))"
    using buildSurface_cell [OF j1 i1] buildSurface_cell [OF j1 ui(2)]
      buildSurface_cell [OF uj(2) i1] buildSurface_cell [OF uj(2) ui(2)]
      ui(1) uj(1) by simp_all
  show ?thesis
    by (simp add: interpolateVol_def interpolated_def Let_def c x y)
qed

text \<open>
  Claim C6. For every grid built from uploaded rows and every grid point
  \<open>(strikes[i], maturities[j])\<close>, the interpolator returns at that point the table entry
  \<open>volatilities[j][i]\<close>, exactly.
\<close>

theorem interpolateVol_grid_point:
  assumes "i < length (strikes (buildSurface data))"
    and "j < length (maturities (buildSurface data))"
  shows "interpolateVol (strikes (buildSurface data) ! i) (maturities (buildSurface data) ! j)
           (buildSurface data)
         = Inr (Fin (volatilities (buildSurface data) ! j ! i))"
proof -
  have li: "lowerIndex (strikes (buildSurface data)) (strikes (buildSurface data) ! i) = i"
    using buildSurface_sorted(1) assms(1) by (rule lowerIndex_grid_point)
  have lj: "lowerIndex (maturities (buildSurface data)) (maturities (buildSurface data) ! j) = j"
    using buildSurface_sorted(2) assms(2) by (rule lowerIndex_grid_point)
  have x: "weight (strikes (buildSurface data)) (strikes (buildSurface data) ! i) = Some 0"
    using buildSurface_sorted(1) assms(1) by (rule weight_grid_point)
  have y: "weight (maturities (buildSurface data)) (maturities (buildSurface data) ! j) = Some 0"
    using buildSurface_sorted(2) assms(2) by (rule weight_grid_point)
  from interpolateVol_built [OF _ _ x y] assms show ?thesis
    by (simp add: li lj)
qed

lemma buildSurface_sampleRows:
  "buildSurface sampleRows =
     \<lparr>strikes = [100, 110], maturities = [1 / 2, 1],
      volatilities = [[1 / 5, 3 / 10], [11 / 50, 8 / 25]]\<rparr>"
  by (simp add: buildSurface_def sampleRows_def Let_def)

theorem interpolateVol_grid_point_witness:
  "1 < length (strikes (buildSurface sampleRows))
   \<and> 0 < length (maturities (buildSurface sampleRows))
   \<and> interpolateVol 110 (1 / 2) (buildSurface sampleRows) = Inr (Fin (3 / 10))"
proof -
  have g: "buildSurface sampleRows =
     \<lparr>strikes = [100, 110], maturities = [1 / 2, 1],
      volatilities = [[1 / 5, 3 / 10], [11 / 50, 8 / 25]]\<rparr>"
    by (simp add: buildSurface_def sampleRows_def Let_def)
  from interpolateVol_grid_point [of 1 sampleRows 0] show ?thesis
    by (simp add: g)
qed


lemma nearestIndex_less_length:
  "k < length xs \<Longrightarrow> nearestIndex xs q k < length xs"
proof (induction xs q k rule: nearestIndex.induct)
  case (1 xs q i1)
  show ?case
  proof (cases "int i1 < int (length xs) - 1 \<and> xs ! (i1 + 1) \<le> q")
    case True
    then have "i1 + 1 < length xs" by auto
    from "1.IH" [OF True this] have "nearestIndex xs q (i1 + 1) < length xs" .
    moreover have "nearestIndex xs q i1 = nearestIndex xs q (i1 + 1)"
      using True by (subst nearestIndex.simps) auto
    ultimately show ?thesis by simp
  next
    case False
    then have "nearestIndex xs q i1 = i1"
      by (subst nearestIndex.simps) auto
    with "1.prems" show ?thesis by simp
  qed
qed

lemma lowerIndex_less_length: "xs \<noteq> [] \<Longrightarrow> lowerIndex xs q < length xs"
  using nearestIndex_less_length [of 0 xs q] by (simp add: lowerIndex_def)

lemma weight_Some:
  assumes "xs \<noteq> []"
  shows "weight xs q = Some ((q - xs ! lowerIndex xs q)
           / or_else (xs ! nat (upperIndex xs q) - xs ! lowerIndex xs q) 1)"
proof -
  note l = lowerIndex_less_length [OF assms, of q]
  note u = upperIndex_range [OF l]
  define n where "n = nat (upperIndex xs q)"
  have n: "upperIndex xs q = int n" "n < length xs"
    using u(1,2) by (simp_all only: n_def)
  have "at_index xs (upperIndex xs q) = Some (xs ! nat (upperIndex xs q))"
    unfolding n_def [symmetric] n(1) using n(2) by (simp add: at_index_nat)
  moreover have "at_index xs (int (lowerIndex xs q)) = Some (xs ! lowerIndex xs q)"
    using l by (simp add: at_index_def)
  ultimately show ?thesis by (simp add: weight_def)
qed

lemma below_first:
  assumes "sorted_wrt (<) xs" and "1 < length xs" and "q < xs ! 0"
  shows "lowerIndex xs q = 0" and "nat (upperIndex xs q) = 1"
    and "weight xs q = Some ((q - xs ! 0) / (xs ! 1 - xs ! 0))"
    and "(q - xs ! 0) / (xs ! 1 - xs ! 0) < 0"
proof -
  have lt: "xs ! 0 < xs ! 1"
    using sorted_wrt_nth_less [OF assms(1), of 0 1] assms(2) by simp
  then have "\<not> xs ! (0 + 1) \<le> q" using assms(3) by simp
  then show l: "lowerIndex xs q = 0"
    unfolding lowerIndex_def by (subst nearestIndex.simps) simp
  show u: "nat (upperIndex xs q) = 1"
    using assms(2) by (simp add: upperIndex_def l)
  have ne: "xs \<noteq> []" using assms(2) by auto
  show "weight xs q = Some ((q - xs ! 0) / (xs ! 1 - xs ! 0))"
    using lt by (simp add: weight_Some [OF ne] l u or_else_def)
  show "(q - xs ! 0) / (xs ! 1 - xs ! 0) < 0"
    using lt assms(3) by (simp add: divide_neg_pos)
qed

lemma interpolated_same_column:
  "interpolated v11 v11 v21 v21 x y = interpolated v11 v11 v21 v21 0 y"
  by (simp add: interpolated_def algebra_simps)

lemma interpolated_same_row:
  "interpolated v11 v12 v11 v12 x y = interpolated v11 v12 v11 v12 x 0"
  by (simp add: interpolated_def algebra_simps)


text \<open>
  Claim C7, as amended. For every grid built from at least one row and every query
  point, with \<open>i1\<close>, \<open>i2\<close>, \<open>j1\<close>, \<open>j2\<close> the bracketing indices, \<open>x\<close> and \<open>y\<close> the
  weights and \<open>v11\<close>, \<open>v12\<close>, \<open>v21\<close>, \<open>v22\<close> the corner volatilities that the
  interpolator computes:
  \<^item> the result is the bilinear formula \<open>interpolated\<close> of the four corners at the weights
    \<open>x\<close> and \<open>y\<close>, with no clamp of the weights;
  \<^item> when the query is not below the first strike nor below the first maturity (beyond
    the last ones included), the result lies between the smallest and the largest of
    the four corners;
  \<^item> when the two bracketing indices of an axis coincide, the weight along that axis is
    the query minus the grid value (the guard makes the divisor 1, not the weight 0),
    and the result is the same as with weight 0 along that axis;
  \<^item> when the query is below the first value of an axis that has at least two values,
    the bracketing indices of that axis are 0 and 1 and the weight is
    \<open>(query - first) / (second - first)\<close>, which is negative: the formula of the first
    cell is continued beyond the grid.
\<close>

theorem interpolateVol_within_corners:
  assumes "data \<noteq> []"
  shows "let g = buildSurface data;
             ks = strikes g; ms = maturities g; vs = volatilities g;
             i1 = lowerIndex ks strikeQ; i2 = nat (upperIndex ks strikeQ);
             j1 = lowerIndex ms maturityQ; j2 = nat (upperIndex ms maturityQ);
             v11 = vs ! j1 ! i1; v12 = vs ! j1 ! i2; v21 = vs ! j2 ! i1; v22 = vs ! j2 ! i2
         in \<exists>x y. weight ks strikeQ = Some x \<and> weight ms maturityQ = Some y
              \<and> interpolateVol strikeQ maturityQ g = Inr (Fin (interpolated v11 v12 v21 v22 x y))
              \<and> (ks ! 0 \<le> strikeQ \<and> ms ! 0 \<le> maturityQ \<longrightarrow>
                    min (min v11 v12) (min v21 v22) \<le> interpolated v11 v12 v21 v22 x y
                    \<and> interpolated v11 v12 v21 v22 x y \<le> max (max v11 v12) (max v21 v22))
              \<and> (i2 = i1 \<longrightarrow>
                    x = strikeQ - ks ! i1
                    \<and> interpolated v11 v12 v21 v22 x y = interpolated v11 v12 v21 v22 0 y)
              \<and> (j2 = j1 \<longrightarrow>
                    y = maturityQ - ms ! j1
                    \<and> interpolated v11 v12 v21 v22 x y = interpolated v11 v12 v21 v22 x 0)
              \<and> (strikeQ < ks ! 0 \<and> 1 < length ks \<longrightarrow>
                    i1 = 0 \<and> i2 = 1 \<and> x = (strikeQ - ks ! 0) / (ks ! 1 - ks ! 0) \<and> x < 0)
              \<and> (maturityQ < ms ! 0 \<and> 1 < length ms \<longrightarrow>
                    j1 = 0 \<and> j2 = 1 \<and> y = (maturityQ - ms ! 0) / (ms ! 1 - ms ! 0) \<and> y < 0)"
proof -
  define ks where "ks = strikes (buildSurface data)"
  define ms where "ms = maturities (buildSurface data)"
  define vs where "vs = volatilities (buildSurface data)"
  define i1 where "i1 = lowerIndex ks strikeQ"
  define i2 where "i2 = nat (upperIndex ks strikeQ)"
  define j1 where "j1 = lowerIndex ms maturityQ"
  define j2 where "j2 = nat (upperIndex ms maturityQ)"
  define x where "x = (strikeQ - ks ! i1) / or_else (ks ! i2 - ks ! i1) 1"
  define y where "y = (maturityQ - ms ! j1) / or_else (ms ! j2 - ms ! j1) 1"
  define B where "B = interpolated (vs ! j1 ! i1) (vs ! j1 ! i2) (vs ! j2 ! i1) (vs ! j2 ! i2)"
  have ne: "ks \<noteq> []" "ms \<noteq> []"
    unfolding ks_def ms_def using assms by (rule buildSurface_nonempty)+
  have so: "sorted_wrt (<) ks" "sorted_wrt (<) ms"
    unfolding ks_def ms_def by (rule buildSurface_sorted)+
  have li: "i1 < length ks" unfolding i1_def using ne(1) by (rule lowerIndex_less_length)
  have lj: "j1 < length ms" unfolding j1_def using ne(2) by (rule lowerIndex_less_length)
  have wx: "weight ks strikeQ = Some x"
    unfolding x_def i1_def i2_def by (rule weight_Some [OF ne(1)])
  have wy: "weight ms maturityQ = Some y"
    unfolding y_def j1_def j2_def by (rule weight_Some [OF ne(2)])
  have ui: "i2 = i1 \<longleftrightarrow> \<not> Suc i1 < length ks"
    unfolding i1_def i2_def using upperIndex_range(3) [OF li [unfolded i1_def]] .
  have uj: "j2 = j1 \<longleftrightarrow> \<not> Suc j1 < length ms"
    unfolding j1_def j2_def using upperIndex_range(3) [OF lj [unfolded j1_def]] .
  have v: "interpolateVol strikeQ maturityQ (buildSurface data) = Inr (Fin (B x y))"
    using interpolateVol_built [of data strikeQ maturityQ x y] li lj wx wy
    unfolding B_def interpolated_def ks_def ms_def vs_def i1_def i2_def j1_def j2_def by simp
  have ex: "x = strikeQ - ks ! i1 \<and> B x y = B 0 y" if e: "i2 = i1" for y
  proof
    show "x = strikeQ - ks ! i1" by (simp add: x_def e or_else_def)
    show "B x y = B 0 y" unfolding B_def e by (rule interpolated_same_column)
  qed
  have ey: "y = maturityQ - ms ! j1 \<and> B x y = B x 0" if e: "j2 = j1" for x
  proof
    show "y = maturityQ - ms ! j1" by (simp add: y_def e or_else_def)
    show "B x y = B x 0" unfolding B_def e by (rule interpolated_same_row)
  qed
  have bx: "strikeQ < ks ! 0 \<and> 1 < length ks \<Longrightarrow>
      i1 = 0 \<and> i2 = 1 \<and> x = (strikeQ - ks ! 0) / (ks ! 1 - ks ! 0) \<and> x < 0"
    using below_first [OF so(1), of strikeQ] wx unfolding i1_def i2_def by auto
  have by': "maturityQ < ms ! 0 \<and> 1 < length ms \<Longrightarrow>
      j1 = 0 \<and> j2 = 1 \<and> y = (maturityQ - ms ! 0) / (ms ! 1 - ms ! 0) \<and> y < 0"
    using below_first [OF so(2), of maturityQ] wy unfolding j1_def j2_def by auto
  have rg: "min (min (vs ! j1 ! i1) (vs ! j1 ! i2)) (min (vs ! j2 ! i1) (vs ! j2 ! i2)) \<le> B x y
      \<and> B x y \<le> max (max (vs ! j1 ! i1) (vs ! j1 ! i2)) (max (vs ! j2 ! i1) (vs ! j2 ! i2))"
    if q: "ks ! 0 \<le> strikeQ \<and> ms ! 0 \<le> maturityQ"
  proof -
    have px: "Suc i1 < length ks \<Longrightarrow> 0 \<le> x \<and> x < 1"
      using weight_props [OF ne(1), of strikeQ] q wx unfolding i1_def by auto
    have py: "Suc j1 < length ms \<Longrightarrow> 0 \<le> y \<and> y < 1"
      using weight_props [OF ne(2), of maturityQ] q wy unfolding j1_def by auto
    define x' where "x' = (if i2 = i1 then 0 else x)"
    define y' where "y' = (if j2 = j1 then 0 else y)"
    have "B x y = B x' y"
    proof (cases "i2 = i1")
      case True
      then have "x' = 0" by (simp add: x'_def)
      with conjunct2 [OF ex [OF True, of y]] show ?thesis by (simp only:)
    next
      case False
      then have "x' = x" by (simp add: x'_def)
      then show ?thesis by (simp only:)
    qed
    also have "B x' y = B x' y'"
    proof (cases "j2 = j1")
      case True
      then have "y' = 0" by (simp add: y'_def)
      with conjunct2 [OF ey [OF True, of x']] show ?thesis by (simp only:)
    next
      case False
      then have "y' = y" by (simp add: y'_def)
      then show ?thesis by (simp only:)
    qed
    finally have e: "B x y = B x' y'" .
    have b1: "0 \<le> x'" "x' \<le> 1" using px ui by (auto simp: x'_def)
    have b2: "0 \<le> y'" "y' \<le> 1" using py uj by (auto simp: y'_def)
    show ?thesis
      unfolding e unfolding B_def interpolated_def
      using bilinear_bounds [OF b1 b2] by simp
  qed
  have "weight ks strikeQ = Some x \<and> weight ms maturityQ = Some y
      \<and> interpolateVol strikeQ maturityQ (buildSurface data) = Inr (Fin (B x y))
      \<and> (ks ! 0 \<le> strikeQ \<and> ms ! 0 \<le> maturityQ \<longrightarrow>
            min (min (vs ! j1 ! i1) (vs ! j1 ! i2)) (min (vs ! j2 ! i1) (vs ! j2 ! i2)) \<le> B x y
            \<and> B x y \<le> max (max (vs ! j1 ! i1) (vs ! j1 ! i2)) (max (vs ! j2 ! i1) (vs ! j2 ! i2)))
      \<and> (i2 = i1 \<longrightarrow> x = strikeQ - ks ! i1 \<and> B x y = B 0 y)
      \<and> (j2 = j1 \<longrightarrow> y = maturityQ - ms ! j1 \<and> B x y = B x 0)
      \<and> (strikeQ < ks ! 0 \<and> 1 < length ks \<longrightarrow>
            i1 = 0 \<and> i2 = 1 \<and> x = (strikeQ - ks ! 0) / (ks ! 1 - ks ! 0) \<and> x < 0)
      \<and> (maturityQ < ms ! 0 \<and> 1 < length ms \<longrightarrow>
            j1 = 0 \<and> j2 = 1 \<and> y = (maturityQ - ms ! 0) / (ms ! 1 - ms ! 0) \<and> y < 0)"
    using wx wy v rg ex ey bx by' by (intro conjI impI) blast+
  then show ?thesis
    unfolding Let_def B_def ks_def ms_def vs_def i1_def i2_def j1_def j2_def
    by (intro exI [of _ x] exI [of _ y])
qed


lemma sampleRows_indices:
  "lowerIndex [100, 110] 90 = 0" "upperIndex [100, 110] 90 = 1"
  "lowerIndex [100, 110] 120 = 1" "upperIndex [100, 110] 120 = 1"
  "lowerIndex [1 / 2, 1] (1 / 2) = 0" "upperIndex [1 / 2, 1] (1 / 2) = 1"
  "lowerIndex [1 / 2, 1] (3 / 4) = 0" "upperIndex [1 / 2, 1] (3 / 4) = 1"
  by (simp_all add: lowerIndex_def upperIndex_def nearestIndex.simps)

lemma sampleRows_indices_more:
  "lowerIndex [1 / 2, 1] 2 = 1" "upperIndex [1 / 2, 1] 2 = 1"
  "lowerIndex [1 / 2, 1] (1 / 4) = 0" "upperIndex [1 / 2, 1] (1 / 4) = 1"
  "lowerIndex [100, 110] 100 = 0" "upperIndex [100, 110] 100 = 1"
  by (simp_all add: lowerIndex_def upperIndex_def nearestIndex.simps)

theorem interpolateVol_within_corners_witness:
  "sampleRows \<noteq> []
   \<and> interpolateVol 120 2 (buildSurface sampleRows) = Inr (Fin (8 / 25))
   \<and> weight (strikes (buildSurface sampleRows)) 120 = Some 10
   \<and> weight (maturities (buildSurface sampleRows)) 2 = Some 1
   \<and> interpolateVol 90 (1 / 4) (buildSurface sampleRows) = Inr (Fin (9 / 100))
   \<and> weight (strikes (buildSurface sampleRows)) 90 = Some (- 1)
   \<and> weight (maturities (buildSurface sampleRows)) (1 / 4) = Some (- (1 / 2))"
proof -
  have ne: "sampleRows \<noteq> []" by (simp add: sampleRows_def)
  from interpolateVol_within_corners [OF ne, of 120 2]
       interpolateVol_within_corners [OF ne, of 90 "1 / 4"] ne
  show ?thesis
    by (auto simp: Let_def buildSurface_sampleRows sampleRows_indices sampleRows_indices_more
          interpolated_def)
qed

text \<open>
  Claim C7 as stated fails. Below the first strike the weight is negative and the
  result leaves the range of the corners: at strike 90 and maturity 0.5 the grid of
  \<open>sampleRows\<close> gives 0.1, the line through 0.2 at strike 100 and 0.3 at strike 110
  continued to 90. The same holds below the first maturity: at strike 100 and maturity
  0.25 the result is 0.19, below the corners 0.2 and 0.22. Beyond the last strike the
  indices coincide and the weight is 10, not 0.
\<close>

theorem interpolateVol_extrapolates_counterexample:
  "strikes (buildSurface sampleRows) = [100, 110]
   \<and> maturities (buildSurface sampleRows) = [1 / 2, 1]
   \<and> volatilities (buildSurface sampleRows) = [[1 / 5, 3 / 10], [11 / 50, 8 / 25]]
   \<and> interpolateVol 90 (1 / 2) (buildSurface sampleRows) = Inr (Fin (1 / 10))
   \<and> weight (strikes (buildSurface sampleRows)) 90 = Some (- 1)
   \<and> interpolateVol 100 (1 / 4) (buildSurface sampleRows) = Inr (Fin (19 / 100))
   \<and> weight (maturities (buildSurface sampleRows)) (1 / 4) = Some (- (1 / 2))
   \<and> upperIndex (strikes (buildSurface sampleRows)) 120
       = int (lowerIndex (strikes (buildSurface sampleRows)) 120)
   \<and> weight (strikes (buildSurface sampleRows)) 120 = Some 10"
  by (simp add: buildSurface_sampleRows sampleRows_indices sampleRows_indices_more
      interpolateVol_def interpolated_def
      weight_def cell_def at_index_def or_else_def Let_def)

section \<open>What-if analysis at maturity zero\<close>

lemma normalCDF_js_Fin: "normalCDF_js (Fin x) = Fin (normalCDF x)"
proof -
  have "0 < 1 + 0.2316419 * \<bar>x\<bar>" by (simp add: add_pos_nonneg)
  then have "1 + 0.2316419 * \<bar>x\<bar> \<noteq> 0" by simp
  then show ?thesis
    by (simp add: normalCDF_js_def normalCDF_def Let_def minus_jsnum_def)
qed

lemma normalCDF_js_special:
  "normalCDF_js PInf = Fin 1" "normalCDF_js NInf = Fin 0" "normalCDF_js NaN = NaN"
  by (simp_all add: normalCDF_js_def Let_def minus_jsnum_def)

lemma normalPDF_js_Fin: "normalPDF_js (Fin x) = Fin (normalPDF x)"
  by (simp add: normalPDF_js_def normalPDF_def)

lemma normalPDF_js_special:
  "normalPDF_js PInf = Fin 0" "normalPDF_js NInf = Fin 0" "normalPDF_js NaN = NaN"
  by (simp_all add: normalPDF_js_def)

lemma calculateD1D2_js_Fin:
  assumes "S > 0" "K > 0" "T > 0" "sigma > 0"
  shows "calculateD1D2_js (Fin S) (Fin K) (Fin T) (Fin r) (Fin sigma)
     = (Fin (fst (calculateD1D2 S K T r sigma)), Fin (snd (calculateD1D2 S K T r sigma)))"
  using assms by (simp add: calculateD1D2_js_def calculateD1D2_def Let_def minus_jsnum_def)

lemma calculateD1D2_js_zero:
  assumes "S > 0" "K > 0" "sigma > 0"
  shows "calculateD1D2_js (Fin S) (Fin K) (Fin 0) (Fin r) (Fin sigma)
     = (if S > K then (PInf, PInf) else if S < K then (NInf, NInf) else (NaN, NaN))"
proof -
  have "ln (S / K) > 0 \<longleftrightarrow> S > K" "ln (S / K) < 0 \<longleftrightarrow> S < K"
    using assms by simp_all
  then show ?thesis
    using assms by (simp add: calculateD1D2_js_def Let_def minus_jsnum_def)
qed


lemma adjustOption_sel:
  "spotPrice (adjustOption params option) = spotPrice option"
  "Option_t.strikePrice (adjustOption params option) = Option_t.strikePrice option"
  "type (adjustOption params option) = type option"
  "quantity (adjustOption params option) = quantity option"
  "Option_t.volatility (adjustOption params option)
     = Option_t.volatility option * volatilityMultiplier params"
  "timeToExpiry (adjustOption params option)
     = max 0 (timeToExpiry option - timeDecayDays params / 365)"
  "Option_t.riskFreeRate (adjustOption params option)
     = Option_t.riskFreeRate option + rateShift params / 100"
  by (simp_all add: adjustOption_def)

lemma price_js_zero_maturity:
  assumes "spotPrice opt > 0" "Option_t.strikePrice opt > 0" "Option_t.volatility opt > 0"
    and "timeToExpiry opt = 0"
  shows "calculateOptionPrice_js opt =
     (if spotPrice opt = Option_t.strikePrice opt then NaN
      else Fin (max 0 ((if type opt = Call then 1 else -1)
                         * (spotPrice opt - Option_t.strikePrice opt))))"
  using assms
  by (cases "type opt")
     (simp_all add: calculateOptionPrice_js_def calculateD1D2_js_zero Let_def
        normalCDF_js_special minus_jsnum_def)

lemma greeks_js_zero_maturity:
  assumes "spotPrice opt > 0" "Option_t.strikePrice opt > 0" "Option_t.volatility opt > 0"
    and "timeToExpiry opt = 0"
  shows "gamma (calculateGreeks_js opt) = NaN" and "theta (calculateGreeks_js opt) = NaN"
    and "delta (calculateGreeks_js opt) =
     (if spotPrice opt = Option_t.strikePrice opt then NaN
      else Fin ((if type opt = Call then 1 else -1)
             * (if 0 < (if type opt = Call then 1 else -1)
                        * (spotPrice opt - Option_t.strikePrice opt) then 1 else 0)))"
    and "vega (calculateGreeks_js opt) =
     (if spotPrice opt = Option_t.strikePrice opt then NaN else Fin 0)"
    and "rho (calculateGreeks_js opt) =
     (if spotPrice opt = Option_t.strikePrice opt then NaN else Fin 0)"
  using assms
  by (simp_all add: calculateGreeks_js_def calculateD1D2_js_zero Let_def
        normalCDF_js_special normalPDF_js_special minus_jsnum_def)


text \<open>
  Where spot, strike, maturity and volatility are positive no divisor is zero, and
  the functions on \<open>jsnum\<close> return the finite values of the functions on \<open>real\<close>.
\<close>

lemma calculateOptionPrice_js_Fin:
  assumes "spotPrice opt > 0" "Option_t.strikePrice opt > 0" "timeToExpiry opt > 0"
    "Option_t.volatility opt > 0"
  shows "calculateOptionPrice_js opt = Fin (calculateOptionPrice opt)"
  using assms
  by (simp add: calculateOptionPrice_js_def calculateOptionPrice_def calculateD1D2_js_Fin
        normalCDF_js_Fin Let_def minus_jsnum_def split: prod.splits)

lemma calculateGreeks_js_Fin:
  assumes "spotPrice opt > 0" "Option_t.strikePrice opt > 0" "timeToExpiry opt > 0"
    "Option_t.volatility opt > 0"
  shows "calculateGreeks_js opt =
     \<lparr>delta = Fin (delta (calculateGreeks opt)), gamma = Fin (gamma (calculateGreeks opt)),
      theta = Fin (theta (calculateGreeks opt)), vega = Fin (vega (calculateGreeks opt)),
      rho = Fin (rho (calculateGreeks opt))\<rparr>"
  using assms
  by (simp add: calculateGreeks_js_def calculateGreeks_def calculateD1D2_js_Fin
        normalCDF_js_Fin normalPDF_js_Fin Let_def minus_jsnum_def split: prod.splits)

text \<open>
  Claim C4, as amended. For every position with spot, strike and volatility positive
  and every tuning with a positive volatility multiplier and with
  \<open>maturity - timeDecayDays / 365 \<le> 0\<close>, the what-if transform sets the maturity to
  exactly 0. The position is not special-cased: it is priced by the general formula,
  which divides by \<open>sigma * sqrt 0 = 0\<close>. Gamma and theta are then \<open>0 / 0\<close>, that is
  NaN, for every such position. When spot and strike differ, \<open>d1\<close> and \<open>d2\<close> are
  infinite and the price is the intrinsic value, delta is \<open>sign\<close> when the option is in
  the money and 0 otherwise, and vega and rho are 0; when spot equals strike, \<open>d1\<close> and
  \<open>d2\<close> are NaN and so are the price and all five Greeks.
\<close>

theorem whatIf_zero_maturity:
  assumes "spotPrice option > 0" and "Option_t.strikePrice option > 0"
    and "Option_t.volatility option > 0" and "volatilityMultiplier params > 0"
    and "timeToExpiry option - timeDecayDays params / 365 \<le> 0"
  shows "timeToExpiry (adjustOption params option) = 0
     \<and> gamma (calculateGreeks_js (adjustOption params option)) = NaN
     \<and> theta (calculateGreeks_js (adjustOption params option)) = NaN
     \<and> (spotPrice option \<noteq> Option_t.strikePrice option \<longrightarrow>
          calculateOptionPrice_js (adjustOption params option)
            = Fin (max 0 ((if type option = Call then 1 else -1)
                            * (spotPrice option - Option_t.strikePrice option)))
          \<and> delta (calculateGreeks_js (adjustOption params option))
            = Fin ((if type option = Call then 1 else -1)
                * (if 0 < (if type option = Call then 1 else -1)
                           * (spotPrice option - Option_t.strikePrice option) then 1 else 0))
          \<and> vega (calculateGreeks_js (adjustOption params option)) = Fin 0
          \<and> rho (calculateGreeks_js (adjustOption params option)) = Fin 0)
     \<and> (spotPrice option = Option_t.strikePrice option \<longrightarrow>
          calculateOptionPrice_js (adjustOption params option) = NaN
          \<and> delta (calculateGreeks_js (adjustOption params option)) = NaN
          \<and> vega (calculateGreeks_js (adjustOption params option)) = NaN
          \<and> rho (calculateGreeks_js (adjustOption params option)) = NaN)"
proof -
  have a: "spotPrice (adjustOption params option) > 0"
    "Option_t.strikePrice (adjustOption params option) > 0"
    "Option_t.volatility (adjustOption params option) > 0"
    "timeToExpiry (adjustOption params option) = 0"
    using assms by (simp_all add: adjustOption_sel)
  show ?thesis
    using price_js_zero_maturity [OF a] greeks_js_zero_maturity [OF a] a(4)
    by (simp add: adjustOption_sel)
qed

theorem whatIf_zero_maturity_witness:
  "timeToExpiry (adjustOption \<lparr>volatilityMultiplier = 1, timeDecayDays = 30, rateShift = 0\<rparr>
                   (sampleCall\<lparr>timeToExpiry := 0.05\<rparr>)) = 0
   \<and> calculateOptionPrice_js
         (adjustOption \<lparr>volatilityMultiplier = 1, timeDecayDays = 30, rateShift = 0\<rparr>
            (sampleCall\<lparr>timeToExpiry := 0.05\<rparr>)) = Fin 0
   \<and> gamma (calculateGreeks_js
         (adjustOption \<lparr>volatilityMultiplier = 1, timeDecayDays = 30, rateShift = 0\<rparr>
            (sampleCall\<lparr>timeToExpiry := 0.05\<rparr>))) = NaN
   \<and> calculateOptionPrice_js
         (adjustOption \<lparr>volatilityMultiplier = 1, timeDecayDays = 30, rateShift = 0\<rparr>
            (defaultOption\<lparr>timeToExpiry := 0.05\<rparr>)) = NaN"
  using whatIf_zero_maturity
          [of "sampleCall\<lparr>timeToExpiry := 0.05\<rparr>"
              "\<lparr>volatilityMultiplier = 1, timeDecayDays = 30, rateShift = 0\<rparr>"]
        whatIf_zero_maturity
          [of "defaultOption\<lparr>timeToExpiry := 0.05\<rparr>"
              "\<lparr>volatilityMultiplier = 1, timeDecayDays = 30, rateShift = 0\<rparr>"]
  by (simp add: sampleCall_def defaultOption_def)

text \<open>
  Claim C4 as stated fails: for the first sample contract with 0.05 years to expiry
  and a time decay of 30 days, gamma and theta of the adjusted position are not 0.
\<close>

theorem whatIf_zero_maturity_counterexample:
  "timeToExpiry (sampleCall\<lparr>timeToExpiry := 0.05\<rparr>) - 30 / 365 \<le> 0
   \<and> gamma (calculateGreeks_js
         (adjustOption \<lparr>volatilityMultiplier = 1, timeDecayDays = 30, rateShift = 0\<rparr>
            (sampleCall\<lparr>timeToExpiry := 0.05\<rparr>))) \<noteq> Fin 0
   \<and> theta (calculateGreeks_js
         (adjustOption \<lparr>volatilityMultiplier = 1, timeDecayDays = 30, rateShift = 0\<rparr>
            (sampleCall\<lparr>timeToExpiry := 0.05\<rparr>))) \<noteq> Fin 0"
proof -
  have a: "spotPrice (adjustOption \<lparr>volatilityMultiplier = 1, timeDecayDays = 30, rateShift = 0\<rparr>
            (sampleCall\<lparr>timeToExpiry := 0.05\<rparr>)) > 0"
    "Option_t.strikePrice (adjustOption \<lparr>volatilityMultiplier = 1, timeDecayDays = 30, rateShift = 0\<rparr>
            (sampleCall\<lparr>timeToExpiry := 0.05\<rparr>)) > 0"
    "Option_t.volatility (adjustOption \<lparr>volatilityMultiplier = 1, timeDecayDays = 30, rateShift = 0\<rparr>
            (sampleCall\<lparr>timeToExpiry := 0.05\<rparr>)) > 0"
    "timeToExpiry (adjustOption \<lparr>volatilityMultiplier = 1, timeDecayDays = 30, rateShift = 0\<rparr>
            (sampleCall\<lparr>timeToExpiry := 0.05\<rparr>)) = 0"
    by (simp_all add: adjustOption_sel sampleCall_def)
  show ?thesis
    using greeks_js_zero_maturity(1,2) [OF a] by (simp add: sampleCall_def)
qed


end
